theory Spec2Isabelle
  imports Main "HOL-Library.Sublist"
begin

section \<open>The receipt processor: data model\<close>

text \<open>
  The Go structs \<open>Item\<close> and \<open>Receipt\<close> of \<open>main.go\<close>. A Go string is a sequence of
  bytes; \<open>string\<close> is a list of 8-bit characters, so \<open>length\<close> is Go's \<open>len\<close>.
\<close>

record Item =
  ShortDescription :: string
  Price :: string

record Receipt =
  Retailer :: string
  PurchaseDate :: string
  PurchaseTime :: string
  Items :: "Item list"
  Total :: string

section \<open>Go's \<open>int\<close>\<close>

text \<open>
  Go's \<open>int\<close> is modelled on a 64-bit platform: a value is an \<open>int\<close> in
  \<open>-2^63 ..< 2^63\<close>, and every addition and multiplication of the program is followed
  by the two's complement wrap-around \<open>wrap64\<close>. Division and remainder truncate
  towards zero, as Go's \<open>/\<close> and \<open>%\<close> do.
\<close>

definition wrap64 :: "int \<Rightarrow> int" where
  "wrap64 x = (x + 2 ^ 63) mod 2 ^ 64 - 2 ^ 63"

definition add64 :: "int \<Rightarrow> int \<Rightarrow> int" where
  "add64 a b = wrap64 (a + b)"

definition mul64 :: "int \<Rightarrow> int \<Rightarrow> int" where
  "mul64 a b = wrap64 (a * b)"

definition quo :: "int \<Rightarrow> int \<Rightarrow> int" where
  "quo a b = sgn a * sgn b * (\<bar>a\<bar> div \<bar>b\<bar>)"

definition rem :: "int \<Rightarrow> int \<Rightarrow> int" where
  "rem a b = sgn a * (\<bar>a\<bar> mod \<bar>b\<bar>)"

definition len :: "'a list \<Rightarrow> int" where
  "len xs = int (length xs)"

section \<open>The functions of Go's standard library that \<open>calculatePoints\<close> calls\<close>

subsection \<open>Bytes\<close>

definition byte :: "char \<Rightarrow> nat" where
  "byte c = of_char c"

definition isDigit :: "char \<Rightarrow> bool" where
  "isDigit c = (byte CHR ''0'' \<le> byte c \<and> byte c \<le> byte CHR ''9'')"

definition digitVal :: "char \<Rightarrow> int" where
  "digitVal c = int (byte c) - int (byte CHR ''0'')"

text \<open>\<open>lower(c) = c | ('x' - 'X')\<close> of package \<open>strconv\<close>: it sets bit 5 of the byte.\<close>

definition lower :: "char \<Rightarrow> nat" where
  "lower c = (if (byte c div 32) mod 2 = 0 then byte c + 32 else byte c)"

definition isHexLetter :: "char \<Rightarrow> bool" where
  "isHexLetter c = (byte CHR ''a'' \<le> lower c \<and> lower c \<le> byte CHR ''f'')"

definition hexLetterVal :: "char \<Rightarrow> int" where
  "hexLetterVal c = int (lower c) - int (byte CHR ''a'') + 10"

subsection \<open>\<open>regexp\<close>: the matches of \<open>[a-zA-Z0-9]\<close>\<close>

text \<open>
  The pattern is a class of single ASCII characters, so the matches of
  \<open>re.FindAllString(s, -1)\<close> are the one-byte substrings of \<open>s\<close> whose byte is an
  ASCII letter or digit, in order: a byte of a multi-byte UTF-8 sequence, or an
  invalid byte, is at least 128 and never matches.
\<close>

definition isAlnum :: "char \<Rightarrow> bool" where
  "isAlnum c = ((byte CHR ''a'' \<le> byte c \<and> byte c \<le> byte CHR ''z'')
              \<or> (byte CHR ''A'' \<le> byte c \<and> byte c \<le> byte CHR ''Z'')
              \<or> (byte CHR ''0'' \<le> byte c \<and> byte c \<le> byte CHR ''9''))"

definition FindAllString :: "string \<Rightarrow> string list" where
  "FindAllString s = map (\<lambda>c. [c]) (filter isAlnum s)"

subsection \<open>\<open>strings.HasSuffix\<close> and \<open>strings.TrimSpace\<close>\<close>

text \<open>\<open>len(s) >= len(suffix) && s[len(s)-len(suffix):] == suffix\<close>\<close>

definition HasSuffix :: "string \<Rightarrow> string \<Rightarrow> bool" where
  "HasSuffix s sfx =
     (length sfx \<le> length s \<and> drop (length s - length sfx) s = sfx)"

text \<open>
  \<open>TrimSpace\<close> removes the leading and the trailing white space of a string, as Unicode
  defines it. The white-space code points and their UTF-8 encodings are
  U+0009 .. U+000D and U+0020 (one byte each), U+0085 (C2 85), U+00A0 (C2 A0),
  U+1680 (E1 9A 80), U+2000 .. U+200A (E2 80 80 .. E2 80 8A), U+2028 (E2 80 A8),
  U+2029 (E2 80 A9), U+202F (E2 80 AF), U+205F (E2 81 9F) and U+3000 (E3 80 80).
  \<open>spaceWidth bs\<close> is the number of bytes of the white-space character that \<open>bs\<close>
  starts with, and 0 when it starts with none. Go decodes the string from the left
  for the leading space and from the right for the trailing space; an invalid byte
  decodes to U+FFFD, which is no space. No encoding above ends with a byte that can
  start a character, so the trailing white space is found by matching the reversed
  encodings against the reversed string.
\<close>

definition isAsciiSpace :: "nat \<Rightarrow> bool" where
  "isAsciiSpace b = (b = 9 \<or> b = 10 \<or> b = 11 \<or> b = 12 \<or> b = 13 \<or> b = 32)"

fun spaceWidth :: "nat list \<Rightarrow> nat" where
  "spaceWidth [] = 0"
| "spaceWidth [a] = (if isAsciiSpace a then 1 else 0)"
| "spaceWidth [a, b] =
     (if isAsciiSpace a then 1
      else if a = 194 \<and> (b = 133 \<or> b = 160) then 2 else 0)"
| "spaceWidth (a # b # c # bs) =
     (if isAsciiSpace a then 1
      else if a = 194 \<and> (b = 133 \<or> b = 160) then 2
      else if a = 225 \<and> b = 154 \<and> c = 128 then 3
      else if a = 226 \<and> b = 128 \<and> (128 \<le> c \<and> c \<le> 138 \<or> c = 168 \<or> c = 169 \<or> c = 175) then 3
      else if a = 226 \<and> b = 129 \<and> c = 159 then 3
      else if a = 227 \<and> b = 128 \<and> c = 128 then 3
      else 0)"

fun spaceWidthLast :: "nat list \<Rightarrow> nat" where
  "spaceWidthLast [] = 0"
| "spaceWidthLast [a] = (if isAsciiSpace a then 1 else 0)"
| "spaceWidthLast [c, b] =
     (if isAsciiSpace c then 1
      else if spaceWidth [b, c] = 2 then 2 else 0)"
| "spaceWidthLast (c # b # a # bs) =
     (if isAsciiSpace c then 1
      else if spaceWidth [b, c] = 2 then 2
      else if spaceWidth [a, b, c] = 3 then 3
      else 0)"

lemma spaceWidth_shorter:
  "0 < spaceWidth (map byte s) \<Longrightarrow> length s - spaceWidth (map byte s) < length s"
  by (cases s) auto

lemma spaceWidthLast_shorter:
  "0 < spaceWidthLast (map byte s) \<Longrightarrow> length s - spaceWidthLast (map byte s) < length s"
  by (cases s) auto

function TrimLeft :: "string \<Rightarrow> string" where
  "TrimLeft s =
     (if spaceWidth (map byte s) = 0 then s else TrimLeft (drop (spaceWidth (map byte s)) s))"
  by pat_completeness auto
termination
  by (relation "measure length") (simp_all add: spaceWidth_shorter)

function TrimRightRev :: "string \<Rightarrow> string" where
  "TrimRightRev s =
     (if spaceWidthLast (map byte s) = 0 then s
      else TrimRightRev (drop (spaceWidthLast (map byte s)) s))"
  by pat_completeness auto
termination
  by (relation "measure length") (simp_all add: spaceWidthLast_shorter)

declare TrimLeft.simps [simp del] TrimRightRev.simps [simp del]

definition TrimRight :: "string \<Rightarrow> string" where
  "TrimRight s = rev (TrimRightRev (rev s))"

definition TrimSpace :: "string \<Rightarrow> string" where
  "TrimSpace s = TrimRight (TrimLeft s)"

subsection \<open>\<open>float64\<close>: IEEE 754 binary64\<close>

text \<open>
  A \<open>float64\<close> is \<open>Finite m e\<close>, the number \<open>m * 2^e\<close>, an infinity or a NaN. The sign
  of a zero is not kept: no operation of \<open>calculatePoints\<close> tells \<open>-0\<close> from \<open>+0\<close>
  (\<open>math.Mod(-0, 0.25) == 0\<close> holds and \<open>int(math.Ceil(-0))\<close> is 0).
  \<open>float64_of_ratio num den\<close> is the binary64 number nearest to \<open>num / den\<close> (for
  \<open>0 < den\<close>), ties to the even significand: with \<open>e\<close> the exponent of the ratio,
  not below that of the smallest normal number, the ratio is rounded to a multiple
  \<open>n\<close> of \<open>2^(e - 52)\<close>; a result of \<open>2^1024\<close> or more is an infinity.
\<close>

datatype float64 = Finite int int | PosInf | NegInf | NaN

function bitLen :: "int \<Rightarrow> int" where
  "bitLen n = (if n \<le> 0 then 0 else 1 + bitLen (n div 2))"
  by pat_completeness auto
termination
  by (relation "measure nat") auto

declare bitLen.simps [simp del]

definition shl :: "int \<Rightarrow> int \<Rightarrow> int" where
  "shl x s = x * 2 ^ nat s"

definition float64_of_ratio :: "int \<Rightarrow> int \<Rightarrow> float64" where
  "float64_of_ratio num den =
     (if num = 0 then Finite 0 0
      else
        let a = \<bar>num\<bar>;
            k = bitLen a - bitLen den;
            e = (if shl den k \<le> shl a (- k) then k else k - 1);
            t = max e (- 1022) - 52;
            q = shl a (- t) div shl den t;
            r = shl a (- t) mod shl den t;
            n = (if shl den t < 2 * r \<or> (2 * r = shl den t \<and> odd q) then q + 1 else q)
        in if 971 < t \<or> (t = 971 \<and> 2 ^ 53 \<le> n)
           then (if 0 < num then PosInf else NegInf)
           else Finite (sgn num * n) t)"

text \<open>The constants \<open>0.25\<close> and \<open>0.2\<close> of the program, converted to \<open>float64\<close>.\<close>

definition const_0_25 :: float64 where
  "const_0_25 = float64_of_ratio 1 4"

definition const_0_2 :: float64 where
  "const_0_2 = float64_of_ratio 1 5"

text \<open>\<open>x * y\<close> on \<open>float64\<close>: the exact product, rounded.\<close>

fun fmul :: "float64 \<Rightarrow> float64 \<Rightarrow> float64" where
  "fmul (Finite m1 e1) (Finite m2 e2) =
     float64_of_ratio (shl (m1 * m2) (e1 + e2)) (shl 1 (- (e1 + e2)))"
| "fmul NaN y = NaN"
| "fmul x NaN = NaN"
| "fmul (Finite m e) PosInf = (if m = 0 then NaN else if 0 < m then PosInf else NegInf)"
| "fmul (Finite m e) NegInf = (if m = 0 then NaN else if 0 < m then NegInf else PosInf)"
| "fmul PosInf (Finite m e) = (if m = 0 then NaN else if 0 < m then PosInf else NegInf)"
| "fmul NegInf (Finite m e) = (if m = 0 then NaN else if 0 < m then NegInf else PosInf)"
| "fmul PosInf PosInf = PosInf"
| "fmul PosInf NegInf = NegInf"
| "fmul NegInf PosInf = NegInf"
| "fmul NegInf NegInf = PosInf"

text \<open>\<open>x == 0\<close> on \<open>float64\<close>.\<close>

fun isZero :: "float64 \<Rightarrow> bool" where
  "isZero (Finite m e) = (m = 0)"
| "isZero x = False"

text \<open>
  \<open>math.Mod(x, y)\<close>, the remainder of \<open>x / y\<close> with the sign of \<open>x\<close>, which is exact:
  \<open>Mod(\<plusminus>Inf, y) = NaN\<close>, \<open>Mod(NaN, y) = NaN\<close>, \<open>Mod(x, 0) = NaN\<close>,
  \<open>Mod(x, \<plusminus>Inf) = x\<close>, \<open>Mod(x, NaN) = NaN\<close>.
\<close>

fun Mod :: "float64 \<Rightarrow> float64 \<Rightarrow> float64" where
  "Mod NaN y = NaN"
| "Mod PosInf y = NaN"
| "Mod NegInf y = NaN"
| "Mod (Finite m e) NaN = NaN"
| "Mod (Finite m e) PosInf = Finite m e"
| "Mod (Finite m e) NegInf = Finite m e"
| "Mod (Finite m1 e1) (Finite m2 e2) =
     (if m2 = 0 then NaN
      else Finite (rem (shl m1 (e1 - min e1 e2)) (shl m2 (e2 - min e1 e2))) (min e1 e2))"

text \<open>\<open>math.Ceil(x)\<close>: the least integer not below \<open>x\<close>; an infinity and a NaN stay.\<close>

fun Ceil :: "float64 \<Rightarrow> float64" where
  "Ceil (Finite m e) = (if 0 \<le> e then Finite m e else Finite (- ((- m) div 2 ^ nat (- e))) 0)"
| "Ceil x = x"

text \<open>
  The conversion \<open>int(x)\<close> of a \<open>float64\<close> drops the fraction. When the result is not
  an \<open>int\<close> (a NaN, an infinity, a number outside \<open>-2^63 ..< 2^63\<close>) the conversion
  succeeds with a value that Go leaves to the implementation; the model takes the one
  of amd64, \<open>-2^63\<close>.
\<close>

definition int_indefinite :: int where
  "int_indefinite = - (2 ^ 63)"

fun int_of_float64 :: "float64 \<Rightarrow> int" where
  "int_of_float64 (Finite m e) =
     (let v = (if 0 \<le> e then shl m e else quo m (2 ^ nat (- e)))
      in if - (2 ^ 63) \<le> v \<and> v < 2 ^ 63 then v else int_indefinite)"
| "int_of_float64 x = int_indefinite"

text \<open>\<open>nonnegAtMost x b\<close>: \<open>x\<close> is a number, not below 0 and not above the integer \<open>b\<close>.\<close>

fun nonnegAtMost :: "float64 \<Rightarrow> int \<Rightarrow> bool" where
  "nonnegAtMost (Finite m e) b = (0 \<le> m \<and> shl m e \<le> shl b (- e))"
| "nonnegAtMost x b = False"

subsection \<open>\<open>strconv.ParseFloat(s, 64)\<close>\<close>

text \<open>
  \<open>ParseFloat\<close> returns a \<open>float64\<close> and an error: no error, \<open>ErrSyntax\<close> when \<open>s\<close> is
  not a well-formed number (the value is then 0), or \<open>ErrRange\<close> when \<open>s\<close> is well
  formed and its value rounds to an infinity (the value is then that infinity).
  The well-formed strings are \<open>NaN\<close>, the optionally signed \<open>Inf\<close> and \<open>Infinity\<close>
  (in any letter case), and the decimal and hexadecimal floating-point numbers of
  Go's syntax with an optional sign. The value of a number is the \<open>float64\<close> nearest
  to it.
\<close>

datatype NumError = ErrSyntax | ErrRange

text \<open>\<open>commonPrefixLenIgnoreCase(s, prefix)\<close>, for a lower-case \<open>prefix\<close>.\<close>

fun commonPrefixLenIgnoreCase :: "string \<Rightarrow> string \<Rightarrow> nat" where
  "commonPrefixLenIgnoreCase (c # s) (p # ps) =
     (if (if byte CHR ''A'' \<le> byte c \<and> byte c \<le> byte CHR ''Z'' then byte c + 32 else byte c)
           = byte p
      then Suc (commonPrefixLenIgnoreCase s ps) else 0)"
| "commonPrefixLenIgnoreCase s ps = 0"

text \<open>
  \<open>special(s)\<close>: the value of a leading \<open>Inf\<close>, \<open>Infinity\<close> or \<open>NaN\<close> and the number of
  bytes it takes, or \<open>None\<close>.
\<close>

definition infPrefix :: "string \<Rightarrow> nat option" where
  "infPrefix s =
     (let n = commonPrefixLenIgnoreCase s ''infinity'';
          n = (if 3 < n \<and> n < 8 then 3 else n)
      in if n = 3 \<or> n = 8 then Some n else None)"

fun special :: "string \<Rightarrow> (float64 \<times> nat) option" where
  "special [] = None"
| "special (c # s) =
     (if c = CHR ''+'' then map_option (\<lambda>n. (PosInf, 1 + n)) (infPrefix s)
      else if c = CHR ''-'' then map_option (\<lambda>n. (NegInf, 1 + n)) (infPrefix s)
      else if c = CHR ''i'' \<or> c = CHR ''I'' then map_option (\<lambda>n. (PosInf, n)) (infPrefix (c # s))
      else if c = CHR ''n'' \<or> c = CHR ''N'' then
        (if commonPrefixLenIgnoreCase (c # s) ''nan'' = 3 then Some (NaN, 3) else None)
      else None)"

text \<open>
  \<open>readFloat\<close>, the digits: the loop over the mantissa. The state is the mantissa
  read so far, the number \<open>nd\<close> of its digits after the leading zeros, the position
  \<open>dp\<close> of the decimal point, and the flags \<open>sawdot\<close>, \<open>sawdigits\<close> and
  \<open>underscores\<close>; the result is the state at the first byte that belongs to no
  mantissa, and the rest of the string from that byte on. Go keeps the first 19
  decimal (16 hexadecimal) digits of the mantissa and a flag for a non-zero digit
  beyond them, and parses the digits again where they do not decide the rounding;
  the model keeps every digit.
\<close>

record digits =
  mantissa :: int
  nd :: int
  dp :: int
  sawdot :: bool
  sawdigits :: bool
  underscores :: bool

fun readDigits :: "bool \<Rightarrow> string \<Rightarrow> digits \<Rightarrow> digits \<times> string" where
  "readDigits hex [] d = (d, [])"
| "readDigits hex (c # s) d =
     (if c = CHR ''_'' then readDigits hex s (d\<lparr>underscores := True\<rparr>)
      else if c = CHR ''.'' then
        (if sawdot d then (d, c # s) else readDigits hex s (d\<lparr>sawdot := True, dp := nd d\<rparr>))
      else if isDigit c then
        (if c = CHR ''0'' \<and> nd d = 0 then readDigits hex s (d\<lparr>sawdigits := True, dp := dp d - 1\<rparr>)
         else readDigits hex s
                (d\<lparr>sawdigits := True, nd := nd d + 1,
                   mantissa := mantissa d * (if hex then 16 else 10) + digitVal c\<rparr>))
      else if hex \<and> isHexLetter c then
        readDigits hex s
          (d\<lparr>sawdigits := True, nd := nd d + 1, mantissa := mantissa d * 16 + hexLetterVal c\<rparr>)
      else (d, c # s))"

text \<open>
  The digits of the exponent: \<open>e\<close> grows while it is below 10000, and an underscore
  sets the flag.
\<close>

fun readExp :: "string \<Rightarrow> int \<Rightarrow> bool \<Rightarrow> int \<times> bool \<times> string" where
  "readExp [] e us = (e, us, [])"
| "readExp (c # s) e us =
     (if c = CHR ''_'' then readExp s e True
      else if isDigit c then readExp s (if e < 10000 then e * 10 + digitVal c else e) us
      else (e, us, c # s))"

text \<open>
  \<open>underscoreOK(s)\<close>: an underscore stands only between two digits, or between the
  base prefix and a digit. The state is the kind of the last byte: \<open>CHR ''^''\<close> at the
  start, \<open>CHR ''0''\<close> after a digit or the base prefix, \<open>CHR ''_''\<close> after an
  underscore, \<open>CHR ''!''\<close> after any other byte.
\<close>

fun underscoreLoop :: "bool \<Rightarrow> char \<Rightarrow> string \<Rightarrow> bool" where
  "underscoreLoop hex i [] = (i \<noteq> CHR ''_'')"
| "underscoreLoop hex i (c # s) =
     (if isDigit c \<or> (hex \<and> isHexLetter c) then underscoreLoop hex CHR ''0'' s
      else if c = CHR ''_'' then (if i \<noteq> CHR ''0'' then False else underscoreLoop hex CHR ''_'' s)
      else if i = CHR ''_'' then False
      else underscoreLoop hex CHR ''!'' s)"

definition underscoreOK :: "string \<Rightarrow> bool" where
  "underscoreOK s0 =
     (let s = (if 1 \<le> length s0 \<and> (hd s0 = CHR ''-'' \<or> hd s0 = CHR ''+'') then tl s0 else s0)
      in if 2 \<le> length s \<and> hd s = CHR ''0''
            \<and> (lower (s ! 1) = byte CHR ''b'' \<or> lower (s ! 1) = byte CHR ''o''
                \<or> lower (s ! 1) = byte CHR ''x'')
         then underscoreLoop (lower (s ! 1) = byte CHR ''x'') CHR ''0'' (drop 2 s)
         else underscoreLoop False CHR ''^'' s)"

text \<open>
  \<open>readFloat(s)\<close>: the sign, the mantissa, the exponent of the base (10, or 2 for a
  hexadecimal number) that scales the mantissa, whether the number is hexadecimal,
  and the rest of the string after the number; \<open>None\<close> when \<open>s\<close> starts with no
  number.
\<close>

record number =
  neg :: bool
  hex :: bool
  mant :: int
  exp :: int
  rest :: string

definition readFloat :: "string \<Rightarrow> number option" where
  "readFloat s0 =
     (if s0 = [] then None
      else
        let neg = (hd s0 = CHR ''-'');
            s1 = (if hd s0 = CHR ''+'' \<or> hd s0 = CHR ''-'' then tl s0 else s0);
            hex = (2 < length s1 \<and> hd s1 = CHR ''0'' \<and> lower (s1 ! 1) = byte CHR ''x'');
            s2 = (if hex then drop 2 s1 else s1);
            (d, s3) = readDigits hex s2
                        \<lparr>mantissa = 0, nd = 0, dp = 0, sawdot = False, sawdigits = False,
                         underscores = False\<rparr>
        in if \<not> sawdigits d then None
           else
             let dp1 = (if sawdot d then dp d else nd d);
                 dp2 = (if hex then dp1 * 4 else dp1);
                 ndMant = (if hex then nd d * 4 else nd d)
             in if s3 \<noteq> [] \<and> lower (hd s3) = byte (if hex then CHR ''p'' else CHR ''e'') then
                  (let s4 = tl s3 in
                   if s4 = [] then None
                   else
                     let esign = (if hd s4 = CHR ''-'' then - 1 else 1);
                         s5 = (if hd s4 = CHR ''+'' \<or> hd s4 = CHR ''-'' then tl s4 else s4)
                     in if s5 = [] \<or> \<not> isDigit (hd s5) then None
                        else
                          let (e, us, s6) = readExp s5 0 (underscores d)
                          in if us \<and> \<not> underscoreOK (take (length s0 - length s6) s0) then None
                             else Some \<lparr>neg = neg, hex = hex, mant = mantissa d,
                                        exp = (if mantissa d \<noteq> 0 then dp2 + e * esign - ndMant else 0),
                                        rest = s6\<rparr>)
                else if hex then None
                else if underscores d \<and> \<not> underscoreOK (take (length s0 - length s3) s0) then None
                else Some \<lparr>neg = neg, hex = hex, mant = mantissa d,
                           exp = (if mantissa d \<noteq> 0 then dp2 - ndMant else 0), rest = s3\<rparr>)"

text \<open>
  The value of a number that \<open>readFloat\<close> has read: \<open>mant * 10^exp\<close>, or
  \<open>mant * 2^exp\<close> for a hexadecimal number, rounded to the nearest \<open>float64\<close>.
\<close>

definition float64_of_number :: "number \<Rightarrow> float64" where
  "float64_of_number n =
     (let m = (if neg n then - mant n else mant n);
          b = (if hex n then 2 else 10)
      in if 0 \<le> exp n then float64_of_ratio (m * b ^ nat (exp n)) 1
         else float64_of_ratio m (b ^ nat (- exp n)))"

fun isInf :: "float64 \<Rightarrow> bool" where
  "isInf PosInf = True"
| "isInf NegInf = True"
| "isInf x = False"

definition ParseFloat :: "string \<Rightarrow> float64 \<times> NumError option" where
  "ParseFloat s =
     (case special s of
        Some (f, n) \<Rightarrow> if n = length s then (f, None) else (Finite 0 0, Some ErrSyntax)
      | None \<Rightarrow>
          (case readFloat s of
             None \<Rightarrow> (Finite 0 0, Some ErrSyntax)
           | Some n \<Rightarrow>
               if rest n \<noteq> [] then (Finite 0 0, Some ErrSyntax)
               else let f = float64_of_number n
                    in (f, if isInf f then Some ErrRange else None)))"

subsection \<open>\<open>time.Parse\<close> with the layouts \<open>2006-01-02\<close> and \<open>15:04\<close>\<close>

text \<open>
  A \<open>Time\<close> is kept as the fields that \<open>Day()\<close>, \<open>Hour()\<close> and \<open>Minute()\<close> read.
  \<open>time.Parse\<close> returns a \<open>Time\<close> and an error; with an error the \<open>Time\<close> is the zero
  value \<open>Time{}\<close>, which is January 1 of the year 1, 00:00.
\<close>

record Time =
  Year :: int
  Month :: int
  Day :: int
  Hour :: int
  Minute :: int

datatype ParseError = ParseError

definition zeroTime :: Time where
  "zeroTime = \<lparr>Year = 1, Month = 1, Day = 1, Hour = 0, Minute = 0\<rparr>"

text \<open>
  \<open>getnum(s, fixed)\<close> reads one or two digits, exactly two when \<open>fixed\<close>;
  \<open>skip(value, prefix)\<close> is used with a one-byte prefix that is no space.
\<close>

fun getnum :: "string \<Rightarrow> bool \<Rightarrow> (int \<times> string) option" where
  "getnum [] fixed = None"
| "getnum [a] fixed = (if \<not> isDigit a \<or> fixed then None else Some (digitVal a, []))"
| "getnum (a # b # s) fixed =
     (if \<not> isDigit a then None
      else if \<not> isDigit b then (if fixed then None else Some (digitVal a, b # s))
      else Some (digitVal a * 10 + digitVal b, s))"

fun skip :: "string \<Rightarrow> char \<Rightarrow> string option" where
  "skip [] p = None"
| "skip (c # s) p = (if c \<noteq> p then None else Some s)"

definition isLeap :: "int \<Rightarrow> bool" where
  "isLeap year = (rem year 4 = 0 \<and> (rem year 100 \<noteq> 0 \<or> rem year 400 = 0))"

definition daysIn :: "int \<Rightarrow> int \<Rightarrow> int" where
  "daysIn m year =
     (if m = 2 \<and> isLeap year then 29
      else [31, 28, 31, 30, 31, 30, 31, 31, 30, 31, 30, 31] ! nat (m - 1))"

text \<open>
  The layout \<open>2006-01-02\<close>: a year of four digits, a month and a day of two digits.
  The month is checked when it is read, the day after the whole string is read.
\<close>

definition longYear :: "string \<Rightarrow> (int \<times> string) option" where
  "longYear s =
     (if length s < 4 \<or> \<not> list_all isDigit (take 4 s) then None
      else Some (digitVal (s ! 0) * 1000 + digitVal (s ! 1) * 100 + digitVal (s ! 2) * 10
                   + digitVal (s ! 3), drop 4 s))"

definition Parse_2006_01_02 :: "string \<Rightarrow> Time \<times> ParseError option" where
  "Parse_2006_01_02 s =
     (case longYear s of
        None \<Rightarrow> (zeroTime, Some ParseError)
      | Some (year, s1) \<Rightarrow>
      (case skip s1 CHR ''-'' of
        None \<Rightarrow> (zeroTime, Some ParseError)
      | Some s2 \<Rightarrow>
      (case getnum s2 True of
        None \<Rightarrow> (zeroTime, Some ParseError)
      | Some (month, s3) \<Rightarrow>
      if month \<le> 0 \<or> 12 < month then (zeroTime, Some ParseError)
      else
      (case skip s3 CHR ''-'' of
        None \<Rightarrow> (zeroTime, Some ParseError)
      | Some s4 \<Rightarrow>
      (case getnum s4 True of
        None \<Rightarrow> (zeroTime, Some ParseError)
      | Some (day, s5) \<Rightarrow>
      if s5 \<noteq> [] then (zeroTime, Some ParseError)
      else if day < 1 \<or> daysIn month year < day then (zeroTime, Some ParseError)
      else (\<lparr>Year = year, Month = month, Day = day, Hour = 0, Minute = 0\<rparr>, None))))))"

text \<open>
  The layout \<open>15:04\<close>: an hour of one or two digits and a minute of two digits; the
  date of the result is January 1 of the year 0.
\<close>

definition Parse_15_04 :: "string \<Rightarrow> Time \<times> ParseError option" where
  "Parse_15_04 s =
     (case getnum s False of
        None \<Rightarrow> (zeroTime, Some ParseError)
      | Some (hour, s1) \<Rightarrow>
      if hour < 0 \<or> 24 \<le> hour then (zeroTime, Some ParseError)
      else
      (case skip s1 CHR '':'' of
        None \<Rightarrow> (zeroTime, Some ParseError)
      | Some s2 \<Rightarrow>
      (case getnum s2 True of
        None \<Rightarrow> (zeroTime, Some ParseError)
      | Some (minute, s3) \<Rightarrow>
      if minute < 0 \<or> 60 \<le> minute then (zeroTime, Some ParseError)
      else if s3 \<noteq> [] then (zeroTime, Some ParseError)
      else (\<lparr>Year = 0, Month = 1, Day = 1, Hour = hour, Minute = minute\<rparr>, None))))"

section \<open>The program state\<close>

text \<open>
  The package variables \<open>receipts\<close> and \<open>points\<close>, and the standard output that
  \<open>fmt.Printf\<close> writes to. A line of output is kept as the format and its arguments.
  The handlers take the mutex around their accesses to the two maps, so a handler's
  access is one step on the state and the requests are modelled one after another.
\<close>

datatype arg = D int | S string

record world =
  receipts :: "string \<rightharpoonup> Receipt"
  points :: "string \<rightharpoonup> int"
  stdout :: "(string \<times> arg list) list"

definition Printf :: "string \<Rightarrow> arg list \<Rightarrow> world \<Rightarrow> world" where
  "Printf format args w = w\<lparr>stdout := stdout w @ [(format, args)]\<rparr>"

section \<open>\<open>calculatePoints\<close>\<close>

text \<open>The loop of rule 5 over \<open>receipt.Items\<close>, on \<open>rule5Points\<close> and the state.\<close>

fun rule5Loop :: "Item list \<Rightarrow> int \<Rightarrow> world \<Rightarrow> int \<times> world" where
  "rule5Loop [] rule5Points w = (rule5Points, w)"
| "rule5Loop (item # items) rule5Points w =
     (let descriptionLength = len (TrimSpace (ShortDescription item))
      in if rem descriptionLength 3 = 0 then
           let price = fst (ParseFloat (Price item));
               itemPoints = int_of_float64 (Ceil (fmul price const_0_2));
               rule5Points = add64 rule5Points itemPoints;
               w = Printf ''Rule 5: +%d points for item description (%s)\<newline>''
                     [D itemPoints, S (ShortDescription item)] w
           in rule5Loop items rule5Points w
         else rule5Loop items rule5Points w)"

definition calculatePoints :: "Receipt \<Rightarrow> world \<Rightarrow> int \<times> world" where
  "calculatePoints receipt w =
     (let points = 0;
          \<comment> \<open>Rule 1\<close>
          rule1Points = len (FindAllString (Retailer receipt));
          points = add64 points rule1Points;
          w = Printf ''Rule 1: %d points for retailer name (%s)\<newline>''
                [D rule1Points, S (Retailer receipt)] w;
          \<comment> \<open>Rule 2\<close>
          rule2Points = 0;
          (rule2Points, points) =
            (if HasSuffix (Total receipt) ''.00'' then (50, add64 points 50)
             else (rule2Points, points));
          w = Printf ''Rule 2: %d points for total (%s)\<newline>''
                [D rule2Points, S (Total receipt)] w;
          \<comment> \<open>Rule 3\<close>
          total = fst (ParseFloat (Total receipt));
          rule3Points = 0;
          (rule3Points, points) =
            (if isZero (Mod total const_0_25) then (25, add64 points 25)
             else (rule3Points, points));
          w = Printf ''Rule 3: %d points for total (%s)\<newline>''
                [D rule3Points, S (Total receipt)] w;
          \<comment> \<open>Rule 4\<close>
          rule4Points = mul64 (quo (len (Items receipt)) 2) 5;
          points = add64 points rule4Points;
          w = Printf ''Rule 4: %d points for %d items\<newline>''
                [D rule4Points, D (len (Items receipt))] w;
          \<comment> \<open>Rule 5\<close>
          rule5Points = 0;
          (rule5Points, w) = rule5Loop (Items receipt) rule5Points w;
          points = add64 points rule5Points;
          \<comment> \<open>Rule 6 is commented out in the source and adds nothing\<close>
          \<comment> \<open>Rule 7\<close>
          rule7Points = 0;
          purchaseDate = fst (Parse_2006_01_02 (PurchaseDate receipt));
          (rule7Points, points) =
            (if rem (Day purchaseDate) 2 \<noteq> 0 then (6, add64 points 6)
             else (rule7Points, points));
          w = Printf ''Rule 7: %d points for odd purchase date (%s)\<newline>''
                [D rule7Points, S (PurchaseDate receipt)] w;
          \<comment> \<open>Rule 8\<close>
          rule8Points = 0;
          purchaseTime = fst (Parse_15_04 (PurchaseTime receipt));
          (rule8Points, points) =
            (if Hour purchaseTime = 14 \<or> (Hour purchaseTime = 15 \<and> Minute purchaseTime < 60)
             then (10, add64 points 10)
             else (rule8Points, points));
          w = Printf ''Rule 8: %d points for purchase time (%s)\<newline>''
                [D rule8Points, S (PurchaseTime receipt)] w;
          w = Printf ''Total points: %d\<newline>'' [D points] w
      in (points, w))"

section \<open>The handlers\<close>

text \<open>
  A request is its method, the result of decoding its body as a \<open>Receipt\<close> (\<open>None\<close>
  when \<open>Decode\<close> returns an error) and the variables of its route. A response is what
  the handler writes: \<open>http.Error\<close> with a message and a status, or the JSON encoding
  of an \<open>IDResponse\<close> or a \<open>PointsResponse\<close>. \<open>handleProcessReceipt\<close> takes the
  identifier that \<open>uuid.New().String()\<close> returns as its first argument.
\<close>

record Request =
  Method :: string
  Body :: "Receipt option"
  Vars :: "string \<rightharpoonup> string"

datatype Response = Error string nat | IDResponse string | PointsResponse int

definition handleProcessReceipt :: "string \<Rightarrow> Request \<Rightarrow> world \<Rightarrow> Response \<times> world" where
  "handleProcessReceipt uuid r w =
     (if Method r \<noteq> ''POST'' then (Error ''Method not allowed'' 405, w)
      else
        case Body r of
          None \<Rightarrow> (Error ''Invalid request payload'' 400, w)
        | Some receipt \<Rightarrow>
            let id = uuid;
                (calculatedPoints, w) = calculatePoints receipt w;
                w = w\<lparr>receipts := (receipts w)(id \<mapsto> receipt)\<rparr>;
                w = w\<lparr>points := (points w)(id \<mapsto> calculatedPoints)\<rparr>
            in (IDResponse id, w))"

definition handleGetPoints :: "Request \<Rightarrow> world \<Rightarrow> Response \<times> world" where
  "handleGetPoints r w =
     (if Method r \<noteq> ''GET'' then (Error ''Method not allowed'' 405, w)
      else
        let id = (case Vars r ''id'' of None \<Rightarrow> [] | Some v \<Rightarrow> v)
        in case points w id of
             None \<Rightarrow> (Error ''No receipt found for that ID'' 404, w)
           | Some calculatedPoints \<Rightarrow> (PointsResponse calculatedPoints, w))"

section \<open>Runs of the service\<close>

text \<open>
  The service starts with both maps empty and nothing written. A call is one request
  handled by one of the two handlers; \<open>Process uuid r\<close> carries the identifier that
  \<open>uuid.New()\<close> returns when the handler reaches it.
\<close>

definition initial :: world where
  "initial = \<lparr>receipts = Map.empty, points = Map.empty, stdout = []\<rparr>"

datatype call = Process string Request | GetPoints Request

fun serve :: "call \<Rightarrow> world \<Rightarrow> Response \<times> world" where
  "serve (Process uuid r) w = handleProcessReceipt uuid r w"
| "serve (GetPoints r) w = handleGetPoints r w"

fun run :: "call list \<Rightarrow> world \<Rightarrow> world" where
  "run [] w = w"
| "run (c # cs) w = run cs (snd (serve c w))"

text \<open>
  \<open>accepted r\<close>: \<open>handleProcessReceipt\<close> reaches \<open>uuid.New()\<close> on the request \<open>r\<close>.
  \<open>freshIds cs w\<close>: in the run of \<open>cs\<close> from \<open>w\<close>, every identifier that
  \<open>uuid.New()\<close> returns is new to the store. \<open>issued cs\<close>: the identifiers that the
  run of \<open>cs\<close> returns to its clients.
\<close>

definition accepted :: "Request \<Rightarrow> bool" where
  "accepted r = (Method r = ''POST'' \<and> Body r \<noteq> None)"

fun freshIds :: "call list \<Rightarrow> world \<Rightarrow> bool" where
  "freshIds [] w = True"
| "freshIds (Process uuid r # cs) w =
     ((accepted r \<longrightarrow> points w uuid = None) \<and> freshIds cs (snd (serve (Process uuid r) w)))"
| "freshIds (GetPoints r # cs) w = freshIds cs (snd (serve (GetPoints r) w))"

fun issued :: "call list \<Rightarrow> string list" where
  "issued [] = []"
| "issued (Process uuid r # cs) = (if accepted r then uuid # issued cs else issued cs)"
| "issued (GetPoints r # cs) = issued cs"

text \<open>A \<open>GET\<close> request for the identifier \<open>i\<close>, as the router passes it on.\<close>

definition getRequest :: "string \<Rightarrow> Request" where
  "getRequest i = \<lparr>Method = ''GET'', Body = None, Vars = [''id'' \<mapsto> i]\<rparr>"

section \<open>The contributions of the rules\<close>

text \<open>
  The values that \<open>calculatePoints\<close> computes for \<open>rule1Points\<close> .. \<open>rule8Points\<close>, as
  functions of the receipt; \<open>calculatePoints_rules\<close> below proves that the function
  returns their sum.
\<close>

definition rule1Points :: "Receipt \<Rightarrow> int" where
  "rule1Points receipt = len (FindAllString (Retailer receipt))"

definition rule2Points :: "Receipt \<Rightarrow> int" where
  "rule2Points receipt = (if HasSuffix (Total receipt) ''.00'' then 50 else 0)"

definition rule3Points :: "Receipt \<Rightarrow> int" where
  "rule3Points receipt =
     (if isZero (Mod (fst (ParseFloat (Total receipt))) const_0_25) then 25 else 0)"

definition rule4Points :: "Receipt \<Rightarrow> int" where
  "rule4Points receipt = mul64 (quo (len (Items receipt)) 2) 5"

definition itemPoints :: "Item \<Rightarrow> int" where
  "itemPoints item = int_of_float64 (Ceil (fmul (fst (ParseFloat (Price item))) const_0_2))"

fun rule5Lines :: "Item list \<Rightarrow> (string \<times> arg list) list" where
  "rule5Lines [] = []"
| "rule5Lines (item # items) =
     (if rem (len (TrimSpace (ShortDescription item))) 3 = 0
      then (''Rule 5: +%d points for item description (%s)\<newline>'',
            [D (itemPoints item), S (ShortDescription item)]) # rule5Lines items
      else rule5Lines items)"

definition rule5Points :: "Receipt \<Rightarrow> int" where
  "rule5Points receipt = fst (rule5Loop (Items receipt) 0 initial)"

definition rule7Points :: "Receipt \<Rightarrow> int" where
  "rule7Points receipt =
     (if rem (Day (fst (Parse_2006_01_02 (PurchaseDate receipt)))) 2 \<noteq> 0 then 6 else 0)"

definition rule8Points :: "Receipt \<Rightarrow> int" where
  "rule8Points receipt =
     (let purchaseTime = fst (Parse_15_04 (PurchaseTime receipt))
      in if Hour purchaseTime = 14 \<or> (Hour purchaseTime = 15 \<and> Minute purchaseTime < 60)
         then 10 else 0)"

text \<open>A receipt that no rule gives a point to but rule 1, for the examples below.\<close>

definition simpleReceipt :: Receipt where
  "simpleReceipt = \<lparr>Retailer = ''Target'', PurchaseDate = ''2022-01-02'',
     PurchaseTime = ''13:13'', Items = [], Total = ''1.10''\<rparr>"

section \<open>Properties of the model\<close>

subsection \<open>Wrap-around, division and remainder\<close>

lemma wrap64_id: "- (2 ^ 63) \<le> x \<Longrightarrow> x < 2 ^ 63 \<Longrightarrow> wrap64 x = x"
  by (simp add: wrap64_def)

lemma wrap64_range: "- (2 ^ 63) \<le> wrap64 x \<and> wrap64 x < 2 ^ 63"
  by (simp add: wrap64_def)

lemma wrap64_add_left: "wrap64 (wrap64 a + b) = wrap64 (a + b)"
proof -
  have "(wrap64 a + b + 2 ^ 63) mod 2 ^ 64 = ((a + 2 ^ 63) mod 2 ^ 64 + b) mod 2 ^ 64"
    by (simp add: wrap64_def)
  also have "\<dots> = ((a + 2 ^ 63) + b) mod 2 ^ 64"
    by (rule mod_add_left_eq)
  also have "\<dots> = (a + b + 2 ^ 63) mod 2 ^ 64"
    by (simp add: ac_simps)
  finally show ?thesis
    by (simp add: wrap64_def)
qed

lemma wrap64_wrap64: "wrap64 (wrap64 a) = wrap64 a"
  using wrap64_add_left [of a 0] by simp

lemma rem_nonneg: "0 \<le> a \<Longrightarrow> 0 < b \<Longrightarrow> rem a b = a mod b"
  by (cases "a = 0") (simp_all add: rem_def)

lemma rem_len_3: "rem (len xs) 3 = 0 \<longleftrightarrow> length xs mod 3 = 0"
proof -
  have "rem (len xs) 3 = int (length xs) mod 3"
    by (simp add: rem_nonneg len_def)
  also have "\<dots> = int (length xs mod 3)"
    by (simp add: zmod_int)
  finally show ?thesis by simp
qed

subsection \<open>The library functions\<close>

text \<open>Go's suffix test is the suffix relation on lists.\<close>

lemma HasSuffix_iff_suffix: "HasSuffix s sfx \<longleftrightarrow> suffix sfx s"
proof
  assume h: "HasSuffix s sfx"
  then have "s = take (length s - length sfx) s @ sfx"
    by (simp add: HasSuffix_def) (metis append_take_drop_id)
  then show "suffix sfx s"
    by (metis suffixI)
next
  assume "suffix sfx s"
  then obtain zs where "s = zs @ sfx"
    by (auto simp: suffix_def)
  then show "HasSuffix s sfx"
    by (simp add: HasSuffix_def)
qed

text \<open>A parsed time of day has an hour below 24 and a minute below 60.\<close>

lemma Parse_15_04_range:
  "0 \<le> Hour (fst (Parse_15_04 s)) \<and> Hour (fst (Parse_15_04 s)) < 24
   \<and> 0 \<le> Minute (fst (Parse_15_04 s)) \<and> Minute (fst (Parse_15_04 s)) < 60"
  by (simp add: Parse_15_04_def zeroTime_def split: option.split prod.split)

text \<open>Every error of the two parsers comes with the zero value.\<close>

lemma Parse_2006_01_02_error:
  "snd (Parse_2006_01_02 s) = Some e \<Longrightarrow> fst (Parse_2006_01_02 s) = zeroTime"
  by (auto simp: Parse_2006_01_02_def split: option.splits prod.splits if_splits)

lemma ParseFloat_ErrSyntax:
  "snd (ParseFloat s) = Some ErrSyntax \<Longrightarrow> fst (ParseFloat s) = Finite 0 0"
  by (auto simp: ParseFloat_def Let_def split: option.splits prod.splits if_splits)

lemma ParseFloat_ErrRange:
  "snd (ParseFloat s) = Some ErrRange \<Longrightarrow> isInf (fst (ParseFloat s))"
  by (auto simp: ParseFloat_def Let_def split: option.splits prod.splits if_splits)

lemma Mod_isInf: "isInf x \<Longrightarrow> Mod x y = NaN"
  by (cases x) simp_all

lemma ParseFloat_1e309: "ParseFloat ''1e309'' = (PosInf, Some ErrRange)"
  by code_simp

lemma const_0_25_eq: "const_0_25 = Finite 4503599627370496 (- 54)"
  by code_simp

lemma int_of_float64_range: "- (2 ^ 63) \<le> int_of_float64 x \<and> int_of_float64 x < 2 ^ 63"
  by (cases x) (simp_all add: int_indefinite_def Let_def)

lemma itemPoints_range: "- (2 ^ 63) \<le> itemPoints item \<and> itemPoints item < 2 ^ 63"
  unfolding itemPoints_def by (rule int_of_float64_range)

lemma const_0_2_eq: "const_0_2 = Finite 7205759403792794 (- 55)"
  by code_simp

text \<open>An item whose price is not a well-formed number has the price 0 and gets 0 points.\<close>

lemma itemPoints_unparsable_price:
  "snd (ParseFloat (Price item)) = Some ErrSyntax \<Longrightarrow> itemPoints item = 0"
  using ParseFloat_ErrSyntax [of "Price item"]
  by (simp add: itemPoints_def const_0_2_eq float64_of_ratio_def shl_def)

subsection \<open>Rounding and the points of an item\<close>

lemma bitLen_nonneg: "0 \<le> bitLen n"
  by (induction n rule: bitLen.induct) (subst bitLen.simps, simp)

lemma bitLen_upper: "n < 2 ^ nat (bitLen n)"
proof (induction n rule: bitLen.induct)
  case (1 n)
  show ?case
  proof (cases "n \<le> 0")
    case True
    then show ?thesis by (subst bitLen.simps) simp
  next
    case False
    then have ih: "n div 2 < 2 ^ nat (bitLen (n div 2))"
      using 1 by simp
    have "nat (1 + bitLen (n div 2)) = Suc (nat (bitLen (n div 2)))"
      using bitLen_nonneg [of "n div 2"] by simp
    then show ?thesis
      using False ih by (subst bitLen.simps) simp
  qed
qed

lemma bitLen_le: "0 \<le> b \<Longrightarrow> n < 2 ^ nat b \<Longrightarrow> bitLen n \<le> b"
proof (induction n arbitrary: b rule: bitLen.induct)
  case (1 n)
  show ?case
  proof (cases "n \<le> 0")
    case True
    then show ?thesis using "1.prems" by (subst bitLen.simps) simp
  next
    case False
    have "b \<noteq> 0"
      using False "1.prems" by (cases "b = 0") simp_all
    then have b: "0 \<le> b - 1" "nat b = Suc (nat (b - 1))"
      using "1.prems"(1) by simp_all
    have "n div 2 < 2 ^ nat (b - 1)"
      using "1.prems"(2) b(2) by simp
    then have "bitLen (n div 2) \<le> b - 1"
      using "1.IH" [OF False b(1)] by simp
    then show ?thesis
      using False by (subst bitLen.simps) simp
  qed
qed

text \<open>Rounding a ratio of at most \<open>2^j\<close> gives a number of at most \<open>2^j\<close>.\<close>

lemma float64_of_ratio_bound:
  assumes num: "0 < num" and den: "0 < den" and j: "0 \<le> j" "j \<le> 52"
    and le: "num \<le> 2 ^ nat j * den"
  shows "\<exists>n t. float64_of_ratio num den = Finite n t \<and> t \<le> 0 \<and> 0 \<le> n
               \<and> n \<le> 2 ^ nat j * 2 ^ nat (- t)"
proof -
  define k where "k = bitLen num - bitLen den"
  define e where "e = (if shl den k \<le> shl num (- k) then k else k - 1)"
  define t where "t = max e (- 1022) - 52"
  define q where "q = shl num (- t) div shl den t"
  define r where "r = shl num (- t) mod shl den t"
  define n where "n = (if shl den t < 2 * r \<or> (2 * r = shl den t \<and> odd q) then q + 1 else q)"
  have "num < 2 ^ nat j * 2 ^ nat (bitLen den)"
  proof -
    have "2 ^ nat j * den < 2 ^ nat j * 2 ^ nat (bitLen den)"
      using bitLen_upper [of den] by (intro mult_strict_left_mono) simp_all
    with le show ?thesis by (rule le_less_trans)
  qed
  then have "num < 2 ^ nat (j + bitLen den)"
    using j(1) bitLen_nonneg [of den] by (simp add: nat_add_distrib power_add)
  then have "bitLen num \<le> j + bitLen den"
    using j(1) bitLen_nonneg [of den] by (intro bitLen_le) simp_all
  then have "k \<le> j"
    by (simp add: k_def)
  then have "e \<le> j"
    by (simp add: e_def)
  then have t0: "t \<le> 0"
    using j(2) by (simp add: t_def)
  have A: "shl num (- t) = num * 2 ^ nat (- t)" and B: "shl den t = den"
    using t0 by (simp_all add: shl_def)
  let ?P = "(2::int) ^ nat (- t)"
  have P: "0 < ?P" by simp
  have AP: "num * ?P \<le> (2 ^ nat j * ?P) * den"
    using le P by (simp add: mult.commute mult.left_commute)
  have q_le: "q \<le> 2 ^ nat j * ?P"
  proof -
    have "(num * ?P) div den \<le> ((2 ^ nat j * ?P) * den) div den"
      using AP den by (intro zdiv_mono1) simp_all
    then show ?thesis
      using den by (simp add: q_def A B)
  qed
  have q0: "0 \<le> q"
    using num den by (simp add: q_def A B pos_imp_zdiv_nonneg_iff)
  have n_le: "n \<le> 2 ^ nat j * ?P"
  proof (cases "q = 2 ^ nat j * ?P")
    case True
    have "q * den + r = num * ?P"
      by (simp add: q_def r_def A B)
    moreover have "0 \<le> r"
      using den by (simp add: r_def B)
    moreover have "num * ?P \<le> q * den"
      using AP by (simp only: True)
    ultimately have "r = 0"
      by linarith
    then have "n = q"
      using den by (simp add: n_def B)
    then show ?thesis using True by simp
  next
    case False
    then have "q + 1 \<le> 2 ^ nat j * ?P"
      using q_le by simp
    then show ?thesis
      using q_le by (simp add: n_def)
  qed
  have n0: "0 \<le> n"
    using q0 by (simp add: n_def)
  have "float64_of_ratio num den =
          (if 971 < t \<or> (t = 971 \<and> 2 ^ 53 \<le> n) then (if 0 < num then PosInf else NegInf)
           else Finite (sgn num * n) t)"
  proof -
    have a: "\<bar>num\<bar> = num" and ne: "(num = 0) = False"
      using num by simp_all
    show ?thesis
      unfolding float64_of_ratio_def Let_def n_def q_def r_def t_def e_def k_def a ne if_False
      by (rule refl)
  qed
  then have "float64_of_ratio num den = Finite n t"
    using num t0 by simp
  then show ?thesis
    using t0 n0 n_le by blast
qed


lemma scale_bound:
  fixes m :: int
  assumes m: "0 \<le> m" and M: "M \<le> c53" and c53: "0 \<le> c53" and X: "0 < X"
    and h: "m * X \<le> c32 * Y" and Z: "Z * X = c55 * Y" and c: "c32 * c53 = c30 * c55"
  shows "m * M \<le> c30 * Z"
proof -
  have "(m * M) * X \<le> (m * c53) * X"
    using m M X by (intro mult_right_mono mult_left_mono) simp_all
  also have "\<dots> = (m * X) * c53"
    by (simp add: ac_simps)
  also have "\<dots> \<le> (c32 * Y) * c53"
    using h c53 by (intro mult_right_mono) simp_all
  also have "\<dots> = (c32 * c53) * Y"
    by (simp add: ac_simps)
  also have "\<dots> = c30 * (c55 * Y)"
    by (simp add: c ac_simps)
  also have "\<dots> = c30 * (Z * X)"
    by (simp only: Z)
  also have "\<dots> = (c30 * Z) * X"
    by (simp only: mult.assoc)
  finally show ?thesis
    using X by (rule mult_right_le_imp_le)
qed

lemma itemPoints_bounds:
  assumes "nonnegAtMost (fst (ParseFloat (Price item))) (2 ^ 32)"
  shows "0 \<le> itemPoints item \<and> itemPoints item \<le> 2 ^ 30"
proof -
  obtain m e where p: "fst (ParseFloat (Price item)) = Finite m e"
    using assms by (cases "fst (ParseFloat (Price item))") simp_all
  have m: "0 \<le> m" and hyp: "shl m e \<le> shl (2 ^ 32) (- e)"
    using assms by (simp_all add: p)
  let ?M = "7205759403792794 :: int"
  let ?num = "shl (m * ?M) (e - 55)"
  let ?den = "shl 1 (55 - e)"
  have ip: "itemPoints item = int_of_float64 (Ceil (float64_of_ratio ?num ?den))"
    by (simp add: itemPoints_def p const_0_2_eq)
  show ?thesis
  proof (cases "m = 0")
    case True
    then show ?thesis
      by (simp add: ip shl_def float64_of_ratio_def)
  next
    case False
    then have mpos: "0 < m" using m by simp
    have e54: "e < 55"
    proof (rule ccontr)
      assume "\<not> e < 55"
      then have e: "55 \<le> e" by simp
      then have "(2::int) ^ 55 \<le> 2 ^ nat e"
        by (intro power_increasing) simp_all
      moreover have "m * 2 ^ nat e \<le> 2 ^ 32"
        using hyp e by (simp add: shl_def)
      moreover have "1 * (2::int) ^ nat e \<le> m * 2 ^ nat e"
        using mpos by (intro mult_right_mono) simp_all
      ultimately show False by simp
    qed
    have num: "?num = m * ?M" and den: "?den = 2 ^ nat (55 - e)"
      using e54 by (simp_all add: shl_def)
    have num_pos: "0 < ?num"
      using mpos by (simp add: num)
    have den_pos: "0 < ?den"
      by (simp add: den)
    have le: "?num \<le> 2 ^ nat 30 * ?den"
    proof -
      have h: "m * 2 ^ nat e \<le> 2 ^ 32 * 2 ^ nat (- e)"
        using hyp by (simp add: shl_def)
      have "nat (55 - e) + nat e = 55 + nat (- e)"
        using e54 by simp
      then have "(2::int) ^ (nat (55 - e) + nat e) = 2 ^ (55 + nat (- e))"
        by simp
      then have Z: "(2::int) ^ nat (55 - e) * 2 ^ nat e = 2 ^ 55 * 2 ^ nat (- e)"
        by (simp only: power_add)
      have "m * ?M \<le> 2 ^ 30 * 2 ^ nat (55 - e)"
        by (rule scale_bound [OF m _ _ _ h Z]) simp_all
      then show ?thesis by (simp add: num den)
    qed
    obtain n t where r: "float64_of_ratio ?num ?den = Finite n t" and t: "t \<le> 0"
      and n: "0 \<le> n" "n \<le> 2 ^ nat 30 * 2 ^ nat (- t)"
      using float64_of_ratio_bound [OF num_pos den_pos _ _ le] by auto
    let ?P = "(2::int) ^ nat (- t)"
    define c where "c = - ((- n) div ?P)"
    have c: "0 \<le> c \<and> c \<le> 2 ^ 30"
    proof -
      have "(- n) div ?P \<le> 0 div ?P"
        using n(1) by (intro zdiv_mono1) simp_all
      then have up: "(- n) div ?P \<le> 0"
        by simp
      have "(- (2 ^ 30)) * ?P \<le> - n"
        using n(2) by simp
      then have "((- (2 ^ 30)) * ?P) div ?P \<le> (- n) div ?P"
        by (intro zdiv_mono1) simp_all
      moreover have "((- (2 ^ 30 :: int)) * ?P) div ?P = - (2 ^ 30)"
        by (rule nonzero_mult_div_cancel_right) simp
      ultimately have "- (2 ^ 30) \<le> (- n) div ?P"
        by linarith
      then show ?thesis
        using up unfolding c_def by linarith
    qed
    have "Ceil (Finite n t) = (if t = 0 then Finite n 0 else Finite c 0)"
      using t by (simp add: c_def)
    moreover have "n \<le> 2 ^ 30" if "t = 0"
      using n(2) that by simp
    ultimately have "0 \<le> int_of_float64 (Ceil (Finite n t))
                     \<and> int_of_float64 (Ceil (Finite n t)) \<le> 2 ^ 30"
      using c n(1) by (auto simp: shl_def Let_def)
    then show ?thesis
      by (simp add: ip r)
  qed
qed

subsection \<open>What \<open>calculatePoints\<close> returns and what it writes\<close>

lemma rule5Loop_fst: "fst (rule5Loop items acc w) = fst (rule5Loop items acc w')"
  by (induction items arbitrary: acc w w') (simp_all add: Let_def)

lemma rule5Loop_snd:
  "snd (rule5Loop items acc w) = w\<lparr>stdout := stdout w @ rule5Lines items\<rparr>"
  by (induction items arbitrary: acc w) (simp_all add: Let_def Printf_def itemPoints_def)

lemma rule5Loop_rule5Points: "fst (rule5Loop (Items receipt) 0 w) = rule5Points receipt"
  unfolding rule5Points_def by (rule rule5Loop_fst)

text \<open>
  The loop of rule 5 adds the points of the items whose trimmed description has a
  length that 3 divides.
\<close>

lemma rule5Loop_sum:
  "- (2 ^ 63) \<le> acc \<Longrightarrow> acc < 2 ^ 63 \<Longrightarrow>
   fst (rule5Loop items acc w) =
     wrap64 (acc + (\<Sum>item\<leftarrow>items.
                      if length (TrimSpace (ShortDescription item)) mod 3 = 0
                      then itemPoints item else 0))"
proof (induction items arbitrary: acc w)
  case Nil
  then show ?case by (simp add: wrap64_id)
next
  case (Cons item items)
  show ?case
  proof (cases "length (TrimSpace (ShortDescription item)) mod 3 = 0")
    case True
    have "- (2 ^ 63) \<le> add64 acc (itemPoints item) \<and> add64 acc (itemPoints item) < 2 ^ 63"
      unfolding add64_def by (rule wrap64_range)
    then show ?thesis
      using True Cons.IH [of "add64 acc (itemPoints item)"]
      by (simp add: rem_len_3 Let_def itemPoints_def [symmetric] add64_def wrap64_add_left
          add.assoc)
  next
    case False
    then show ?thesis
      using Cons.IH [OF Cons.prems] by (simp add: rem_len_3 Let_def)
  qed
qed

lemma rule5Points_sum:
  "rule5Points receipt =
     wrap64 (\<Sum>item\<leftarrow>Items receipt.
               if length (TrimSpace (ShortDescription item)) mod 3 = 0
               then itemPoints item else 0)"
  unfolding rule5Points_def by (subst rule5Loop_sum) simp_all

text \<open>
  \<open>calculatePoints\<close> leaves the state as it is but for the lines it appends to the
  output, and the lines do not depend on the state.
\<close>

lemma calculatePoints_snd:
  "snd (calculatePoints receipt w) =
     w\<lparr>stdout := stdout w @ stdout (snd (calculatePoints receipt initial))\<rparr>"
  unfolding calculatePoints_def Let_def split_beta
  unfolding fst_conv snd_conv if_distrib [of fst] if_distrib [of snd]
  unfolding Printf_def rule5Loop_snd rule5Loop_rule5Points initial_def
  by (cases "HasSuffix (Total receipt) ''.00''";
      cases "isZero (Mod (fst (ParseFloat (Total receipt))) const_0_25)";
      cases "rem (Day (fst (Parse_2006_01_02 (PurchaseDate receipt)))) 2 = 0")
     simp_all

text \<open>
  The result of \<open>calculatePoints\<close> is the sum of the seven contributions, wrapped
  around to 64 bits.
\<close>

lemma calculatePoints_rules:
  "fst (calculatePoints receipt w) =
     wrap64 (rule1Points receipt + rule2Points receipt + rule3Points receipt
             + rule4Points receipt + rule5Points receipt + rule7Points receipt
             + rule8Points receipt)"
  unfolding calculatePoints_def Let_def split_beta
  unfolding fst_conv snd_conv if_distrib [of fst] if_distrib [of snd]
  unfolding rule1Points_def rule2Points_def rule3Points_def rule4Points_def rule7Points_def
    rule8Points_def Let_def rule5Loop_rule5Points add64_def
  by (cases "HasSuffix (Total receipt) ''.00''";
      cases "isZero (Mod (fst (ParseFloat (Total receipt))) const_0_25)";
      cases "rem (Day (fst (Parse_2006_01_02 (PurchaseDate receipt)))) 2 = 0")
     (simp_all add: wrap64_add_left wrap64_wrap64)

text \<open>
  The lines that \<open>calculatePoints\<close> writes: one for each of the rules 1 to 4, of
  rule 5 one for each item that counts, one for each of the rules 7 and 8, and the
  total. Each line carries the value of the variable of its rule.
\<close>

lemma calculatePoints_stdout:
  "stdout (snd (calculatePoints receipt w)) =
     stdout w
     @ [(''Rule 1: %d points for retailer name (%s)\<newline>'',
           [D (rule1Points receipt), S (Retailer receipt)]),
        (''Rule 2: %d points for total (%s)\<newline>'',
           [D (rule2Points receipt), S (Total receipt)]),
        (''Rule 3: %d points for total (%s)\<newline>'',
           [D (rule3Points receipt), S (Total receipt)]),
        (''Rule 4: %d points for %d items\<newline>'',
           [D (rule4Points receipt), D (len (Items receipt))])]
     @ rule5Lines (Items receipt)
     @ [(''Rule 7: %d points for odd purchase date (%s)\<newline>'',
           [D (rule7Points receipt), S (PurchaseDate receipt)]),
        (''Rule 8: %d points for purchase time (%s)\<newline>'',
           [D (rule8Points receipt), S (PurchaseTime receipt)]),
        (''Total points: %d\<newline>'', [D (fst (calculatePoints receipt w))])]"
  unfolding calculatePoints_def Let_def split_beta
  unfolding fst_conv snd_conv if_distrib [of fst] if_distrib [of snd]
  unfolding Printf_def rule5Loop_snd rule5Loop_rule5Points
    rule1Points_def rule2Points_def rule3Points_def rule4Points_def rule7Points_def
    rule8Points_def Let_def
  by (cases "HasSuffix (Total receipt) ''.00''";
      cases "isZero (Mod (fst (ParseFloat (Total receipt))) const_0_25)";
      cases "rem (Day (fst (Parse_2006_01_02 (PurchaseDate receipt)))) 2 = 0")
     simp_all

subsection \<open>The contributions, rule by rule\<close>

lemma rule8Points_eq:
  "rule8Points receipt =
     (if Hour (fst (Parse_15_04 (PurchaseTime receipt))) = 14
         \<or> Hour (fst (Parse_15_04 (PurchaseTime receipt))) = 15 then 10 else 0)"
  using Parse_15_04_range [of "PurchaseTime receipt"] by (simp add: rule8Points_def Let_def)

lemma rule8Points_examples:
  "rule8Points (receipt\<lparr>PurchaseTime := ''14:33''\<rparr>) = 10"
  "rule8Points (receipt\<lparr>PurchaseTime := ''15:59''\<rparr>) = 10"
  "rule8Points (receipt\<lparr>PurchaseTime := ''16:00''\<rparr>) = 0"
  by (simp_all add: rule8Points_def Parse_15_04_def isDigit_def digitVal_def byte_def)

lemma other_rules_PurchaseTime:
  "rule1Points (receipt\<lparr>PurchaseTime := t\<rparr>) = rule1Points receipt"
  "rule2Points (receipt\<lparr>PurchaseTime := t\<rparr>) = rule2Points receipt"
  "rule3Points (receipt\<lparr>PurchaseTime := t\<rparr>) = rule3Points receipt"
  "rule4Points (receipt\<lparr>PurchaseTime := t\<rparr>) = rule4Points receipt"
  "rule5Points (receipt\<lparr>PurchaseTime := t\<rparr>) = rule5Points receipt"
  "rule7Points (receipt\<lparr>PurchaseTime := t\<rparr>) = rule7Points receipt"
  by (simp_all add: rule1Points_def rule2Points_def rule3Points_def rule4Points_def
      rule5Points_def rule7Points_def)

lemma other_rules_Total:
  "rule1Points (receipt\<lparr>Total := t\<rparr>) = rule1Points receipt"
  "rule4Points (receipt\<lparr>Total := t\<rparr>) = rule4Points receipt"
  "rule5Points (receipt\<lparr>Total := t\<rparr>) = rule5Points receipt"
  "rule7Points (receipt\<lparr>Total := t\<rparr>) = rule7Points receipt"
  "rule8Points (receipt\<lparr>Total := t\<rparr>) = rule8Points receipt"
  by (simp_all add: rule1Points_def rule4Points_def rule5Points_def rule7Points_def
      rule8Points_def)

lemma rule2Points_examples:
  "rule2Points (receipt\<lparr>Total := ''35.00''\<rparr>) = 50"
  "rule2Points (receipt\<lparr>Total := ''35.10''\<rparr>) = 0"
  "rule2Points (receipt\<lparr>Total := ''35''\<rparr>) = 0"
  "rule2Points (receipt\<lparr>Total := ''abc.00''\<rparr>) = 50"
  by (simp_all add: rule2Points_def HasSuffix_def)

lemma simpleReceipt_rules:
  "rule1Points simpleReceipt = 6" "rule2Points simpleReceipt = 0"
  "rule3Points simpleReceipt = 0" "rule4Points simpleReceipt = 0"
  "rule5Points simpleReceipt = 0" "rule7Points simpleReceipt = 0"
  "rule8Points simpleReceipt = 0"
  by code_simp+

lemma other_rules_PurchaseDate:
  "rule1Points (receipt\<lparr>PurchaseDate := t\<rparr>) = rule1Points receipt"
  "rule2Points (receipt\<lparr>PurchaseDate := t\<rparr>) = rule2Points receipt"
  "rule3Points (receipt\<lparr>PurchaseDate := t\<rparr>) = rule3Points receipt"
  "rule4Points (receipt\<lparr>PurchaseDate := t\<rparr>) = rule4Points receipt"
  "rule5Points (receipt\<lparr>PurchaseDate := t\<rparr>) = rule5Points receipt"
  "rule8Points (receipt\<lparr>PurchaseDate := t\<rparr>) = rule8Points receipt"
  by (simp_all add: rule1Points_def rule2Points_def rule3Points_def rule4Points_def
      rule5Points_def rule8Points_def)

lemma rule2Points_simple:
  "rule2Points (simpleReceipt\<lparr>Total := ''abc''\<rparr>) = 0"
  "rule2Points (simpleReceipt\<lparr>Total := ''$12.50''\<rparr>) = 0"
  "rule2Points (simpleReceipt\<lparr>Total := ''1e309''\<rparr>) = 0"
  by (simp_all add: rule2Points_def HasSuffix_def)

subsection \<open>Two receipts, evaluated\<close>

text \<open>
  A receipt of a corner market, bought at 14:33 on an even day: 14 points for the
  retailer, 50 and 25 for the total, 10 for the four items, none for the
  descriptions of 8 bytes, 10 for the time. A receipt of five items bought at 13:01
  on an odd day: 6 points for the retailer, 10 for the items, 3 each for the two
  descriptions of 18 and, once trimmed, 24 bytes, 6 for the day.
\<close>

lemma example_corner_market:
  "fst (calculatePoints
          \<lparr>Retailer = ''M&M Corner Market'', PurchaseDate = ''2022-03-20'',
           PurchaseTime = ''14:33'',
           Items = [\<lparr>ShortDescription = ''Gatorade'', Price = ''2.25''\<rparr>,
                    \<lparr>ShortDescription = ''Gatorade'', Price = ''2.25''\<rparr>,
                    \<lparr>ShortDescription = ''Gatorade'', Price = ''2.25''\<rparr>,
                    \<lparr>ShortDescription = ''Gatorade'', Price = ''2.25''\<rparr>],
           Total = ''9.00''\<rparr> initial) = 109"
  by code_simp

lemma example_five_items:
  "fst (calculatePoints
          \<lparr>Retailer = ''Target'', PurchaseDate = ''2022-01-01'', PurchaseTime = ''13:01'',
           Items = [\<lparr>ShortDescription = ''Mountain Dew 12PK'', Price = ''6.49''\<rparr>,
                    \<lparr>ShortDescription = ''Emils Cheese Pizza'', Price = ''12.25''\<rparr>,
                    \<lparr>ShortDescription = ''Knorr Creamy Chicken'', Price = ''1.26''\<rparr>,
                    \<lparr>ShortDescription = ''Doritos Nacho Cheese'', Price = ''3.35''\<rparr>,
                    \<lparr>ShortDescription = ''   Klarbrunn 12-PK 12 FL OZ  '', Price = ''12.00''\<rparr>],
           Total = ''35.35''\<rparr> initial) = 28"
  by code_simp

subsection \<open>Bounds on the contributions\<close>

lemma sum_list_bounds:
  "(\<And>x. x \<in> set xs \<Longrightarrow> 0 \<le> f x \<and> f x \<le> b) \<Longrightarrow>
   0 \<le> (\<Sum>x\<leftarrow>xs. f x) \<and> (\<Sum>x\<leftarrow>xs. f x) \<le> int (length xs) * (b::int)"
proof (induction xs)
  case Nil
  show ?case by simp
next
  case (Cons x xs)
  have "0 \<le> f x \<and> f x \<le> b"
    using Cons.prems by simp
  moreover have "0 \<le> (\<Sum>x\<leftarrow>xs. f x) \<and> (\<Sum>x\<leftarrow>xs. f x) \<le> int (length xs) * b"
    using Cons by simp
  ultimately show ?case
    by (simp add: algebra_simps)
qed

lemma rule1Points_bounds:
  "0 \<le> rule1Points receipt \<and> rule1Points receipt \<le> int (length (Retailer receipt))"
  by (simp add: rule1Points_def FindAllString_def len_def)

lemma rule4Points_bounds:
  assumes "length (Items receipt) < 2 ^ 31"
  shows "0 \<le> rule4Points receipt \<and> rule4Points receipt < 2 ^ 34"
proof -
  let ?n = "int (length (Items receipt))"
  have n: "0 \<le> ?n \<and> ?n < 2 ^ 31"
    using assms by (simp add: of_nat_less_numeral_power_cancel_iff)
  have q: "quo ?n 2 = ?n div 2"
    by (cases "?n = 0") (simp_all add: quo_def)
  have "0 \<le> ?n div 2 * 5 \<and> ?n div 2 * 5 < 2 ^ 34"
    using n by simp
  then show ?thesis
    by (simp add: rule4Points_def len_def q mul64_def wrap64_id)
qed

subsection \<open>The handlers and the store\<close>

lemma handleProcessReceipt_points:
  "points (snd (handleProcessReceipt uuid r w)) =
     (if accepted r then (points w)(uuid \<mapsto> fst (calculatePoints (the (Body r)) w))
      else points w)"
proof (cases "Body r")
  case None
  then show ?thesis
    by (simp add: handleProcessReceipt_def accepted_def)
next
  case (Some receipt)
  have "points (snd (calculatePoints receipt w)) = points w"
    by (subst calculatePoints_snd) simp
  then show ?thesis
    using Some by (simp add: handleProcessReceipt_def accepted_def split_beta Let_def)
qed

lemma handleGetPoints_snd: "snd (handleGetPoints r w) = w"
  by (simp add: handleGetPoints_def Let_def split: option.split)

lemma run_keeps_score:
  "points w i = Some p \<Longrightarrow> freshIds cs w \<Longrightarrow> points (run cs w) i = Some p"
proof (induction cs arbitrary: w)
  case Nil
  then show ?case by simp
next
  case (Cons c cs)
  have "points (snd (serve c w)) i = Some p"
    using Cons.prems by (cases c) (auto simp: handleProcessReceipt_points handleGetPoints_snd)
  moreover have "freshIds cs (snd (serve c w))"
    using Cons.prems(2) by (cases c) simp_all
  ultimately show ?case
    using Cons.IH by simp
qed

lemma run_stored_iff:
  "points (run cs w) i = None \<longleftrightarrow> points w i = None \<and> i \<notin> set (issued cs)"
proof (induction cs arbitrary: w)
  case Nil
  show ?case by simp
next
  case (Cons c cs)
  show ?case
    by (cases c) (auto simp: Cons.IH handleProcessReceipt_points handleGetPoints_snd)
qed

section \<open>The claims\<close>

text \<open>
  C1, as the code has it. The claim asks for a trimmed description of a length above 0.
  The program tests \<open>descriptionLength%3 == 0\<close> alone, and 0 passes the test: rule 5
  adds \<open>int(math.Ceil(price * 0.2))\<close> for every item whose trimmed description has a
  length that is a multiple of 3, the length 0 with the others. So an item whose
  trimmed description is empty contributes the points of its price.
\<close>

theorem rule5_multiple_of_3_with_0:
  "rule5Points receipt =
     wrap64 (\<Sum>item\<leftarrow>Items receipt.
               if length (TrimSpace (ShortDescription item)) mod 3 = 0
               then itemPoints item else 0)
   \<and> (length (TrimSpace (ShortDescription item)) = 0 \<longrightarrow>
        rule5Points (receipt\<lparr>Items := [item]\<rparr>) = itemPoints item)"
proof -
  have "rule5Points (receipt\<lparr>Items := [item]\<rparr>) = itemPoints item"
    if "length (TrimSpace (ShortDescription item)) = 0"
    using that itemPoints_range [of item] by (simp add: rule5Points_sum wrap64_id)
  then show ?thesis
    using rule5Points_sum by blast
qed

theorem rule5_multiple_of_3_with_0_witness:
  "length (TrimSpace (ShortDescription \<lparr>ShortDescription = '' '', Price = ''12.50''\<rparr>)) = 0
   \<and> rule5Points (simpleReceipt\<lparr>Items := [\<lparr>ShortDescription = '' '', Price = ''12.50''\<rparr>]\<rparr>)
       = itemPoints \<lparr>ShortDescription = '' '', Price = ''12.50''\<rparr>
   \<and> itemPoints \<lparr>ShortDescription = '' '', Price = ''12.50''\<rparr> = 3"
proof -
  have h: "length (TrimSpace (ShortDescription \<lparr>ShortDescription = '' '', Price = ''12.50''\<rparr>)) = 0"
    by code_simp
  have p: "itemPoints \<lparr>ShortDescription = '' '', Price = ''12.50''\<rparr> = 3"
    by code_simp
  show ?thesis
    using h p
      rule5_multiple_of_3_with_0 [of simpleReceipt "\<lparr>ShortDescription = '' '', Price = ''12.50''\<rparr>"]
    by simp
qed

text \<open>
  C1, as the claim states it, fails: the description of three spaces has the
  trimmed length 0, and with the price \<open>10.00\<close> rule 5 gives 2 points for the item.
\<close>

theorem empty_description_scores_counterexample:
  "length (TrimSpace (ShortDescription \<lparr>ShortDescription = ''   '', Price = ''10.00''\<rparr>)) = 0
   \<and> rule5Points (simpleReceipt\<lparr>Items := [\<lparr>ShortDescription = ''   '', Price = ''10.00''\<rparr>]\<rparr>) = 2"
  by code_simp

text \<open>
  C2, as the code has it. \<open>calculatePoints\<close> returns for every receipt: the model
  is a total function with no error value, since no operation of the Go function
  can panic (the pattern of \<open>regexp.MustCompile\<close> is a valid constant, the divisors
  are the constants 2 and 3, a conversion of a \<open>float64\<close> to \<open>int\<close> always succeeds, and
  every parse error is dropped). Its result is not below 0 when the retailer has
  fewer than \<open>2^31\<close> bytes, the receipt has fewer than \<open>2^31\<close> items, and the price
  of every item that rule 5 counts parses to a number from 0 to \<open>2^32\<close>, as the
  price 0 of a string that is no number does. A price below 0 gives the item a
  negative number of points, and prices that are very large make the sum wrap
  around.
\<close>

theorem calculatePoints_nonnegative:
  assumes "length (Retailer receipt) < 2 ^ 31"
    and "length (Items receipt) < 2 ^ 31"
    and "\<forall>item \<in> set (Items receipt).
           length (TrimSpace (ShortDescription item)) mod 3 = 0 \<longrightarrow>
           nonnegAtMost (fst (ParseFloat (Price item))) (2 ^ 32)"
  shows "0 \<le> fst (calculatePoints receipt w)"
proof -
  let ?f = "\<lambda>item. if length (TrimSpace (ShortDescription item)) mod 3 = 0
                   then itemPoints item else 0"
  have r1: "0 \<le> rule1Points receipt \<and> rule1Points receipt < 2 ^ 31"
    using rule1Points_bounds [of receipt] assms(1)
    by (simp add: of_nat_less_numeral_power_cancel_iff [symmetric]
             del: of_nat_less_numeral_power_cancel_iff)
  have r4: "0 \<le> rule4Points receipt \<and> rule4Points receipt < 2 ^ 34"
    using assms(2) by (rule rule4Points_bounds)
  have "0 \<le> ?f item \<and> ?f item \<le> 2 ^ 31" if "item \<in> set (Items receipt)" for item
    using that assms(3) itemPoints_bounds [of item] by auto
  then have "0 \<le> (\<Sum>x\<leftarrow>Items receipt. ?f x)
        \<and> (\<Sum>x\<leftarrow>Items receipt. ?f x) \<le> int (length (Items receipt)) * 2 ^ 31"
    by (intro sum_list_bounds) blast
  moreover have "int (length (Items receipt)) * 2 ^ 31 \<le> 2 ^ 31 * 2 ^ 31"
    using assms(2)
    by (simp add: of_nat_less_numeral_power_cancel_iff [symmetric]
             del: of_nat_less_numeral_power_cancel_iff)
  ultimately have s5: "0 \<le> (\<Sum>x\<leftarrow>Items receipt. ?f x)
                       \<and> (\<Sum>x\<leftarrow>Items receipt. ?f x) \<le> 2 ^ 62"
    by simp
  have r5: "0 \<le> rule5Points receipt \<and> rule5Points receipt \<le> 2 ^ 62"
    using s5 by (simp add: rule5Points_sum wrap64_id)
  have r2: "0 \<le> rule2Points receipt \<and> rule2Points receipt \<le> 50"
    by (simp add: rule2Points_def)
  have r3: "0 \<le> rule3Points receipt \<and> rule3Points receipt \<le> 25"
    by (simp add: rule3Points_def)
  have r7: "0 \<le> rule7Points receipt \<and> rule7Points receipt \<le> 6"
    by (simp add: rule7Points_def)
  have r8: "0 \<le> rule8Points receipt \<and> rule8Points receipt \<le> 10"
    by (simp add: rule8Points_def Let_def)
  let ?s = "rule1Points receipt + rule2Points receipt + rule3Points receipt
             + rule4Points receipt + rule5Points receipt + rule7Points receipt
             + rule8Points receipt"
  have "0 \<le> ?s \<and> ?s < 2 ^ 63"
    using r1 r2 r3 r4 r5 r7 r8 by simp
  then show ?thesis
    by (simp add: calculatePoints_rules wrap64_id)
qed

theorem calculatePoints_nonnegative_witness:
  "length (Retailer (simpleReceipt\<lparr>Items := [\<lparr>ShortDescription = ''abc'', Price = ''10.00''\<rparr>,
                                              \<lparr>ShortDescription = ''xyz'', Price = ''free''\<rparr>]\<rparr>))
     < 2 ^ 31
   \<and> length (Items (simpleReceipt\<lparr>Items := [\<lparr>ShortDescription = ''abc'', Price = ''10.00''\<rparr>,
                                             \<lparr>ShortDescription = ''xyz'', Price = ''free''\<rparr>]\<rparr>))
     < 2 ^ 31
   \<and> nonnegAtMost (fst (ParseFloat ''10.00'')) (2 ^ 32)
   \<and> nonnegAtMost (fst (ParseFloat ''free'')) (2 ^ 32)
   \<and> 0 \<le> fst (calculatePoints
               (simpleReceipt\<lparr>Items := [\<lparr>ShortDescription = ''abc'', Price = ''10.00''\<rparr>,
                                         \<lparr>ShortDescription = ''xyz'', Price = ''free''\<rparr>]\<rparr>)
               initial)"
proof -
  let ?r = "simpleReceipt\<lparr>Items := [\<lparr>ShortDescription = ''abc'', Price = ''10.00''\<rparr>,
                                     \<lparr>ShortDescription = ''xyz'', Price = ''free''\<rparr>]\<rparr>"
  have p1: "nonnegAtMost (fst (ParseFloat ''10.00'')) (2 ^ 32)"
    by code_simp
  have p2: "nonnegAtMost (fst (ParseFloat ''free'')) (2 ^ 32)"
    by code_simp
  have h1: "length (Retailer ?r) < 2 ^ 31"
    by (simp add: simpleReceipt_def)
  have h2: "length (Items ?r) < 2 ^ 31"
    by simp
  have h3: "\<forall>item \<in> set (Items ?r).
              length (TrimSpace (ShortDescription item)) mod 3 = 0 \<longrightarrow>
              nonnegAtMost (fst (ParseFloat (Price item))) (2 ^ 32)"
    using p1 p2 by simp
  show ?thesis
    using p1 p2 h1 h2 calculatePoints_nonnegative [OF h1 h2 h3, of initial] by simp
qed

text \<open>
  C2, as the claim states it, fails: for the receipt with one item \<open>abc\<close> at the price
  \<open>-10.00\<close>, no retailer, an even day, a time outside the window and the total
  \<open>1.10\<close>, \<open>calculatePoints\<close> returns \<open>-2\<close>.
\<close>

theorem negative_price_counterexample:
  "fst (calculatePoints
          \<lparr>Retailer = [], PurchaseDate = ''2022-01-02'', PurchaseTime = ''13:13'',
           Items = [\<lparr>ShortDescription = ''abc'', Price = ''-10.00''\<rparr>], Total = ''1.10''\<rparr>
          initial) = - 2"
  by code_simp

text \<open>
  C3. Rule 8 contributes 10 points when the parsed purchase time has the hour 14 or
  15, which is when the time lies from 14:00 up to, but not including, 16:00, and 0
  points otherwise: \<open>calculatePoints\<close> returns the sum of the other rules and of
  that number, and writes the number as the points of rule 8. With the time
  \<open>14:33\<close> or \<open>15:59\<close> the function returns 10 points on top of the other
  rules, with \<open>16:00\<close> none.
\<close>

theorem rule8_half_open_window:
  "fst (calculatePoints receipt w) =
     wrap64 (rule1Points receipt + rule2Points receipt + rule3Points receipt
             + rule4Points receipt + rule5Points receipt + rule7Points receipt
             + (if Hour (fst (Parse_15_04 (PurchaseTime receipt))) = 14
                   \<or> Hour (fst (Parse_15_04 (PurchaseTime receipt))) = 15 then 10 else 0))
   \<and> (''Rule 8: %d points for purchase time (%s)\<newline>'',
        [D (if Hour (fst (Parse_15_04 (PurchaseTime receipt))) = 14
               \<or> Hour (fst (Parse_15_04 (PurchaseTime receipt))) = 15 then 10 else 0),
         S (PurchaseTime receipt)])
       \<in> set (stdout (snd (calculatePoints receipt w)))
   \<and> ((Hour (fst (Parse_15_04 (PurchaseTime receipt))) = 14
         \<or> Hour (fst (Parse_15_04 (PurchaseTime receipt))) = 15)
        = (14 * 60 \<le> Hour (fst (Parse_15_04 (PurchaseTime receipt))) * 60
                        + Minute (fst (Parse_15_04 (PurchaseTime receipt)))
           \<and> Hour (fst (Parse_15_04 (PurchaseTime receipt))) * 60
                + Minute (fst (Parse_15_04 (PurchaseTime receipt))) < 16 * 60))
   \<and> fst (calculatePoints (receipt\<lparr>PurchaseTime := ''14:33''\<rparr>) w) =
       wrap64 (rule1Points receipt + rule2Points receipt + rule3Points receipt
               + rule4Points receipt + rule5Points receipt + rule7Points receipt + 10)
   \<and> fst (calculatePoints (receipt\<lparr>PurchaseTime := ''15:59''\<rparr>) w) =
       wrap64 (rule1Points receipt + rule2Points receipt + rule3Points receipt
               + rule4Points receipt + rule5Points receipt + rule7Points receipt + 10)
   \<and> fst (calculatePoints (receipt\<lparr>PurchaseTime := ''16:00''\<rparr>) w) =
       wrap64 (rule1Points receipt + rule2Points receipt + rule3Points receipt
               + rule4Points receipt + rule5Points receipt + rule7Points receipt + 0)"
proof -
  have r: "0 \<le> Minute (fst (Parse_15_04 (PurchaseTime receipt)))
           \<and> Minute (fst (Parse_15_04 (PurchaseTime receipt))) < 60"
    using Parse_15_04_range by blast
  have "fst (calculatePoints receipt w) =
     wrap64 (rule1Points receipt + rule2Points receipt + rule3Points receipt
             + rule4Points receipt + rule5Points receipt + rule7Points receipt
             + (if Hour (fst (Parse_15_04 (PurchaseTime receipt))) = 14
                   \<or> Hour (fst (Parse_15_04 (PurchaseTime receipt))) = 15 then 10 else 0))"
    by (simp only: calculatePoints_rules rule8Points_eq)
  moreover have "(''Rule 8: %d points for purchase time (%s)\<newline>'',
        [D (if Hour (fst (Parse_15_04 (PurchaseTime receipt))) = 14
               \<or> Hour (fst (Parse_15_04 (PurchaseTime receipt))) = 15 then 10 else 0),
         S (PurchaseTime receipt)])
       \<in> set (stdout (snd (calculatePoints receipt w)))"
    by (subst calculatePoints_stdout) (simp add: rule8Points_eq)
  moreover have "(Hour (fst (Parse_15_04 (PurchaseTime receipt))) = 14
         \<or> Hour (fst (Parse_15_04 (PurchaseTime receipt))) = 15)
        = (14 * 60 \<le> Hour (fst (Parse_15_04 (PurchaseTime receipt))) * 60
                        + Minute (fst (Parse_15_04 (PurchaseTime receipt)))
           \<and> Hour (fst (Parse_15_04 (PurchaseTime receipt))) * 60
                + Minute (fst (Parse_15_04 (PurchaseTime receipt))) < 16 * 60)"
    using r by auto
  moreover have "fst (calculatePoints (receipt\<lparr>PurchaseTime := ''14:33''\<rparr>) w) =
       wrap64 (rule1Points receipt + rule2Points receipt + rule3Points receipt
               + rule4Points receipt + rule5Points receipt + rule7Points receipt + 10)"
    by (simp only: calculatePoints_rules other_rules_PurchaseTime rule8Points_examples)
  moreover have "fst (calculatePoints (receipt\<lparr>PurchaseTime := ''15:59''\<rparr>) w) =
       wrap64 (rule1Points receipt + rule2Points receipt + rule3Points receipt
               + rule4Points receipt + rule5Points receipt + rule7Points receipt + 10)"
    by (simp only: calculatePoints_rules other_rules_PurchaseTime rule8Points_examples)
  moreover have "fst (calculatePoints (receipt\<lparr>PurchaseTime := ''16:00''\<rparr>) w) =
       wrap64 (rule1Points receipt + rule2Points receipt + rule3Points receipt
               + rule4Points receipt + rule5Points receipt + rule7Points receipt + 0)"
    by (simp only: calculatePoints_rules other_rules_PurchaseTime rule8Points_examples)
  ultimately show ?thesis by blast
qed

text \<open>
  C4. Rule 2 contributes 50 points when the total, as a string, ends with \<open>.00\<close>, and
  0 points otherwise; the parsed value plays no part: \<open>calculatePoints\<close> returns
  the sum of the other rules and of that number, and writes the number as the
  points of rule 2. The total \<open>35.00\<close> contributes 50 and \<open>35.10\<close> contributes 0;
  \<open>35\<close>, a whole number, contributes 0, and \<open>abc.00\<close>, no number, contributes 50.
\<close>

theorem rule2_string_suffix:
  "fst (calculatePoints receipt w) =
     wrap64 (rule1Points receipt + (if suffix ''.00'' (Total receipt) then 50 else 0)
             + rule3Points receipt + rule4Points receipt + rule5Points receipt
             + rule7Points receipt + rule8Points receipt)
   \<and> (''Rule 2: %d points for total (%s)\<newline>'',
        [D (if suffix ''.00'' (Total receipt) then 50 else 0), S (Total receipt)])
       \<in> set (stdout (snd (calculatePoints receipt w)))
   \<and> fst (calculatePoints (receipt\<lparr>Total := ''35.00''\<rparr>) w) =
       wrap64 (rule1Points receipt + 50 + rule3Points (receipt\<lparr>Total := ''35.00''\<rparr>)
               + rule4Points receipt + rule5Points receipt + rule7Points receipt
               + rule8Points receipt)
   \<and> fst (calculatePoints (receipt\<lparr>Total := ''35.10''\<rparr>) w) =
       wrap64 (rule1Points receipt + 0 + rule3Points (receipt\<lparr>Total := ''35.10''\<rparr>)
               + rule4Points receipt + rule5Points receipt + rule7Points receipt
               + rule8Points receipt)
   \<and> fst (calculatePoints (receipt\<lparr>Total := ''35''\<rparr>) w) =
       wrap64 (rule1Points receipt + 0 + rule3Points (receipt\<lparr>Total := ''35''\<rparr>)
               + rule4Points receipt + rule5Points receipt + rule7Points receipt
               + rule8Points receipt)
   \<and> fst (calculatePoints (receipt\<lparr>Total := ''abc.00''\<rparr>) w) =
       wrap64 (rule1Points receipt + 50 + rule3Points (receipt\<lparr>Total := ''abc.00''\<rparr>)
               + rule4Points receipt + rule5Points receipt + rule7Points receipt
               + rule8Points receipt)"
proof -
  have eq: "rule2Points receipt = (if suffix ''.00'' (Total receipt) then 50 else 0)"
    by (simp add: rule2Points_def HasSuffix_iff_suffix)
  have "fst (calculatePoints receipt w) =
     wrap64 (rule1Points receipt + (if suffix ''.00'' (Total receipt) then 50 else 0)
             + rule3Points receipt + rule4Points receipt + rule5Points receipt
             + rule7Points receipt + rule8Points receipt)"
    by (simp only: calculatePoints_rules eq)
  moreover have "(''Rule 2: %d points for total (%s)\<newline>'',
        [D (if suffix ''.00'' (Total receipt) then 50 else 0), S (Total receipt)])
       \<in> set (stdout (snd (calculatePoints receipt w)))"
    by (subst calculatePoints_stdout) (simp add: eq)
  moreover have "fst (calculatePoints (receipt\<lparr>Total := ''35.00''\<rparr>) w) =
       wrap64 (rule1Points receipt + 50 + rule3Points (receipt\<lparr>Total := ''35.00''\<rparr>)
               + rule4Points receipt + rule5Points receipt + rule7Points receipt
               + rule8Points receipt)"
    by (simp only: calculatePoints_rules other_rules_Total rule2Points_examples)
  moreover have "fst (calculatePoints (receipt\<lparr>Total := ''35.10''\<rparr>) w) =
       wrap64 (rule1Points receipt + 0 + rule3Points (receipt\<lparr>Total := ''35.10''\<rparr>)
               + rule4Points receipt + rule5Points receipt + rule7Points receipt
               + rule8Points receipt)"
    by (simp only: calculatePoints_rules other_rules_Total rule2Points_examples)
  moreover have "fst (calculatePoints (receipt\<lparr>Total := ''35''\<rparr>) w) =
       wrap64 (rule1Points receipt + 0 + rule3Points (receipt\<lparr>Total := ''35''\<rparr>)
               + rule4Points receipt + rule5Points receipt + rule7Points receipt
               + rule8Points receipt)"
    by (simp only: calculatePoints_rules other_rules_Total rule2Points_examples)
  moreover have "fst (calculatePoints (receipt\<lparr>Total := ''abc.00''\<rparr>) w) =
       wrap64 (rule1Points receipt + 50 + rule3Points (receipt\<lparr>Total := ''abc.00''\<rparr>)
               + rule4Points receipt + rule5Points receipt + rule7Points receipt
               + rule8Points receipt)"
    by (simp only: calculatePoints_rules other_rules_Total rule2Points_examples)
  ultimately show ?thesis by blast
qed

text \<open>
  C5. No rule gives points for a total above 10.00: the total is read by rules 2
  and 3 only. Two receipts that differ in the total alone, with totals that agree on
  the test of rule 2 and on the test of rule 3, get the same score.
\<close>

theorem total_read_by_rules_2_and_3_only:
  assumes "HasSuffix t1 ''.00'' = HasSuffix t2 ''.00''"
    and "isZero (Mod (fst (ParseFloat t1)) const_0_25)
         = isZero (Mod (fst (ParseFloat t2)) const_0_25)"
  shows "fst (calculatePoints (receipt\<lparr>Total := t1\<rparr>) w)
         = fst (calculatePoints (receipt\<lparr>Total := t2\<rparr>) w')"
  using assms
  by (simp add: calculatePoints_rules rule1Points_def rule2Points_def rule3Points_def
      rule4Points_def rule5Points_def rule7Points_def rule8Points_def)

theorem total_read_by_rules_2_and_3_only_witness:
  "HasSuffix ''5.00'' ''.00'' = HasSuffix ''15.00'' ''.00''
   \<and> isZero (Mod (fst (ParseFloat ''5.00'')) const_0_25)
   \<and> isZero (Mod (fst (ParseFloat ''15.00'')) const_0_25)
   \<and> fst (calculatePoints (simpleReceipt\<lparr>Total := ''5.00''\<rparr>) initial)
       = fst (calculatePoints (simpleReceipt\<lparr>Total := ''15.00''\<rparr>) initial)"
proof -
  have h1: "HasSuffix ''5.00'' ''.00'' = HasSuffix ''15.00'' ''.00''"
    by (simp add: HasSuffix_def)
  have a: "isZero (Mod (fst (ParseFloat ''5.00'')) const_0_25)"
    by code_simp
  have b: "isZero (Mod (fst (ParseFloat ''15.00'')) const_0_25)"
    by code_simp
  have h2: "isZero (Mod (fst (ParseFloat ''5.00'')) const_0_25)
            = isZero (Mod (fst (ParseFloat ''15.00'')) const_0_25)"
    using a b by simp
  show ?thesis
    using h1 a b total_read_by_rules_2_and_3_only [OF h1 h2, of simpleReceipt initial initial]
    by simp
qed

text \<open>
  C6. \<open>calculatePoints\<close> is deterministic and has no effect but its diagnostic
  output: called on the same receipt in any two states of the program it returns
  the same integer, it leaves the two maps of the store as they are, and it appends
  the same lines to the output.
\<close>

theorem calculatePoints_deterministic:
  "fst (calculatePoints receipt w) = fst (calculatePoints receipt w')
   \<and> receipts (snd (calculatePoints receipt w)) = receipts w
   \<and> points (snd (calculatePoints receipt w)) = points w
   \<and> (\<exists>ls. stdout (snd (calculatePoints receipt w)) = stdout w @ ls
           \<and> stdout (snd (calculatePoints receipt w')) = stdout w' @ ls)"
proof -
  have "fst (calculatePoints receipt w) = fst (calculatePoints receipt w')"
    by (simp add: calculatePoints_rules)
  moreover have "receipts (snd (calculatePoints receipt w)) = receipts w"
    by (subst calculatePoints_snd) simp
  moreover have "points (snd (calculatePoints receipt w)) = points w"
    by (subst calculatePoints_snd) simp
  moreover have "stdout (snd (calculatePoints receipt v)) =
                   stdout v @ stdout (snd (calculatePoints receipt initial))" for v
    by (subst calculatePoints_snd) simp
  ultimately show ?thesis by blast
qed

text \<open>
  C7. The score stored under an identifier never changes. \<open>handleGetPoints\<close> leaves
  the state as it is; \<open>handleProcessReceipt\<close> changes the entry of no identifier but
  the one it generates; and in every run in which each generated identifier is new
  to the store, a score that is stored under an identifier stays stored under it.
\<close>

theorem score_never_changes:
  "snd (handleGetPoints r w) = w
   \<and> (\<forall>j. j \<noteq> uuid \<longrightarrow> points (snd (handleProcessReceipt uuid r w)) j = points w j)
   \<and> (points w i = Some p \<and> freshIds cs w \<longrightarrow> points (run cs w) i = Some p)"
  by (simp add: handleGetPoints_snd handleProcessReceipt_points run_keeps_score)

theorem score_never_changes_witness:
  "''a'' \<noteq> ''b''
   \<and> points (snd (handleProcessReceipt ''b''
                \<lparr>Method = ''POST'', Body = None, Vars = Map.empty\<rparr>
                \<lparr>receipts = Map.empty, points = [''a'' \<mapsto> 7], stdout = []\<rparr>)) ''a'' = Some 7
   \<and> points \<lparr>receipts = Map.empty, points = [''a'' \<mapsto> 7], stdout = []\<rparr> ''a'' = Some 7
   \<and> freshIds [Process ''b'' \<lparr>Method = ''POST'', Body = Some simpleReceipt, Vars = Map.empty\<rparr>,
                GetPoints (getRequest ''a'')]
        \<lparr>receipts = Map.empty, points = [''a'' \<mapsto> 7], stdout = []\<rparr>
   \<and> points (run [Process ''b'' \<lparr>Method = ''POST'', Body = Some simpleReceipt,
                                 Vars = Map.empty\<rparr>,
                   GetPoints (getRequest ''a'')]
             \<lparr>receipts = Map.empty, points = [''a'' \<mapsto> 7], stdout = []\<rparr>) ''a'' = Some 7"
proof -
  let ?w = "\<lparr>receipts = Map.empty, points = [''a'' \<mapsto> 7], stdout = []\<rparr>"
  let ?post = "\<lparr>Method = ''POST'', Body = Some simpleReceipt, Vars = Map.empty\<rparr>"
  let ?cs = "[Process ''b'' ?post, GetPoints (getRequest ''a'')]"
  have fresh: "freshIds ?cs ?w"
    by (simp add: accepted_def)
  have stored: "points ?w ''a'' = Some 7"
    by simp
  show ?thesis
    using fresh stored
      score_never_changes [of "\<lparr>Method = ''POST'', Body = None, Vars = Map.empty\<rparr>" ?w "''b''"
        "''a''" 7 "[]"]
      score_never_changes [of "getRequest ''a''" ?w "''b''" "''a''" 7 ?cs]
    by simp
qed

text \<open>
  C8. A fetch succeeds if and only if the identifier is stored. For a \<open>GET\<close> request for
  the identifier \<open>i\<close>, \<open>handleGetPoints\<close> answers with the not-found error when the
  store holds no score for \<open>i\<close> and with the stored score when it holds one; and
  after a run of the service from its start the store holds a score for \<open>i\<close> exactly
  when a submit of the run has returned \<open>i\<close>.
\<close>

theorem fetch_found_iff_stored:
  assumes "Method r = ''GET''" and "Vars r ''id'' = Some i"
  shows "fst (handleGetPoints r w) =
           (case points w i of
              None \<Rightarrow> Error ''No receipt found for that ID'' 404
            | Some p \<Rightarrow> PointsResponse p)
         \<and> (points (run cs initial) i = None \<longleftrightarrow> i \<notin> set (issued cs))"
  using assms
  by (simp add: handleGetPoints_def run_stored_iff initial_def split: option.split)

theorem fetch_found_iff_stored_witness:
  "Method (getRequest ''a'') = ''GET'' \<and> Vars (getRequest ''a'') ''id'' = Some ''a''
   \<and> fst (handleGetPoints (getRequest ''a'') initial)
       = Error ''No receipt found for that ID'' 404
   \<and> fst (handleGetPoints (getRequest ''a'')
            \<lparr>receipts = Map.empty, points = [''a'' \<mapsto> 7], stdout = []\<rparr>)
       = PointsResponse 7"
  using fetch_found_iff_stored [of "getRequest ''a''" "''a''" initial "[]"]
    fetch_found_iff_stored [of "getRequest ''a''" "''a''"
      "\<lparr>receipts = Map.empty, points = [''a'' \<mapsto> 7], stdout = []\<rparr>" "[]"]
  by (simp add: getRequest_def initial_def)

text \<open>
  C9. When the purchase date does not parse with the layout \<open>2006-01-02\<close>, the error is
  dropped and the date is the zero value of \<open>Time\<close>, whose day is 1; the day is odd,
  so rule 7 contributes 6 points: \<open>calculatePoints\<close> returns the sum of the other
  rules and of 6, and writes 6 as the points of rule 7.
\<close>

theorem rule7_unparsable_date:
  assumes "snd (Parse_2006_01_02 (PurchaseDate receipt)) = Some e"
  shows "fst (Parse_2006_01_02 (PurchaseDate receipt)) = zeroTime \<and> Day zeroTime = 1
         \<and> fst (calculatePoints receipt w) =
             wrap64 (rule1Points receipt + rule2Points receipt + rule3Points receipt
                     + rule4Points receipt + rule5Points receipt + 6 + rule8Points receipt)
         \<and> (''Rule 7: %d points for odd purchase date (%s)\<newline>'',
              [D 6, S (PurchaseDate receipt)])
             \<in> set (stdout (snd (calculatePoints receipt w)))"
proof -
  have z: "fst (Parse_2006_01_02 (PurchaseDate receipt)) = zeroTime"
    using assms by (rule Parse_2006_01_02_error)
  have d: "Day zeroTime = 1"
    by (simp add: zeroTime_def)
  have r7: "rule7Points receipt = 6"
    by (simp add: rule7Points_def z d rem_def)
  have "fst (calculatePoints receipt w) =
             wrap64 (rule1Points receipt + rule2Points receipt + rule3Points receipt
                     + rule4Points receipt + rule5Points receipt + 6 + rule8Points receipt)"
    by (simp only: calculatePoints_rules r7)
  moreover have "(''Rule 7: %d points for odd purchase date (%s)\<newline>'',
              [D 6, S (PurchaseDate receipt)])
             \<in> set (stdout (snd (calculatePoints receipt w)))"
    by (subst calculatePoints_stdout) (simp add: r7)
  ultimately show ?thesis
    using z d by blast
qed

theorem rule7_unparsable_date_witness:
  "snd (Parse_2006_01_02 (PurchaseDate (simpleReceipt\<lparr>PurchaseDate := ''2022-02-30''\<rparr>)))
     = Some ParseError
   \<and> fst (calculatePoints (simpleReceipt\<lparr>PurchaseDate := ''2022-02-30''\<rparr>) initial) = 12
   \<and> (''Rule 7: %d points for odd purchase date (%s)\<newline>'', [D 6, S ''2022-02-30''])
       \<in> set (stdout (snd (calculatePoints (simpleReceipt\<lparr>PurchaseDate := ''2022-02-30''\<rparr>)
                               initial)))
   \<and> snd (Parse_2006_01_02 (PurchaseDate (simpleReceipt\<lparr>PurchaseDate := ''01/02/2022''\<rparr>)))
     = Some ParseError
   \<and> fst (calculatePoints (simpleReceipt\<lparr>PurchaseDate := ''01/02/2022''\<rparr>) initial) = 12
   \<and> (''Rule 7: %d points for odd purchase date (%s)\<newline>'', [D 6, S ''01/02/2022''])
       \<in> set (stdout (snd (calculatePoints (simpleReceipt\<lparr>PurchaseDate := ''01/02/2022''\<rparr>)
                               initial)))"
proof -
  have h1: "snd (Parse_2006_01_02 (PurchaseDate (simpleReceipt\<lparr>PurchaseDate := ''2022-02-30''\<rparr>)))
              = Some ParseError"
    by code_simp
  have h2: "snd (Parse_2006_01_02 (PurchaseDate (simpleReceipt\<lparr>PurchaseDate := ''01/02/2022''\<rparr>)))
              = Some ParseError"
    by code_simp
  show ?thesis
    using h1 h2 rule7_unparsable_date [OF h1, of initial] rule7_unparsable_date [OF h2, of initial]
    by (simp add: other_rules_PurchaseDate simpleReceipt_rules wrap64_def)
qed

text \<open>
  C10, as the code has it. \<open>ParseFloat\<close> has two errors, and the program drops both.
  When the total is not a well-formed number, so that \<open>ParseFloat\<close> returns a syntax
  error, the value of the total is 0; 0 is a multiple of 0.25, so rule 3 contributes
  25 points. When the total is a well-formed number that is out of range,
  \<open>ParseFloat\<close> returns a range error with an infinity, which is no multiple of
  0.25, so rule 3 contributes 0 points. In both cases \<open>calculatePoints\<close> returns the
  sum of the other rules and of that number, and writes the number as the points of
  rule 3.
\<close>

theorem rule3_unparsable_total:
  "(snd (ParseFloat (Total receipt)) = Some ErrSyntax \<longrightarrow>
      fst (ParseFloat (Total receipt)) = Finite 0 0
      \<and> fst (calculatePoints receipt w) =
          wrap64 (rule1Points receipt + rule2Points receipt + 25 + rule4Points receipt
                  + rule5Points receipt + rule7Points receipt + rule8Points receipt)
      \<and> (''Rule 3: %d points for total (%s)\<newline>'', [D 25, S (Total receipt)])
          \<in> set (stdout (snd (calculatePoints receipt w))))
   \<and> (snd (ParseFloat (Total receipt)) = Some ErrRange \<longrightarrow>
      isInf (fst (ParseFloat (Total receipt)))
      \<and> fst (calculatePoints receipt w) =
          wrap64 (rule1Points receipt + rule2Points receipt + 0 + rule4Points receipt
                  + rule5Points receipt + rule7Points receipt + rule8Points receipt)
      \<and> (''Rule 3: %d points for total (%s)\<newline>'', [D 0, S (Total receipt)])
          \<in> set (stdout (snd (calculatePoints receipt w))))"
proof -
  have "fst (ParseFloat (Total receipt)) = Finite 0 0
      \<and> fst (calculatePoints receipt w) =
          wrap64 (rule1Points receipt + rule2Points receipt + 25 + rule4Points receipt
                  + rule5Points receipt + rule7Points receipt + rule8Points receipt)
      \<and> (''Rule 3: %d points for total (%s)\<newline>'', [D 25, S (Total receipt)])
          \<in> set (stdout (snd (calculatePoints receipt w)))"
    if h: "snd (ParseFloat (Total receipt)) = Some ErrSyntax"
  proof -
    have z: "fst (ParseFloat (Total receipt)) = Finite 0 0"
      using h by (rule ParseFloat_ErrSyntax)
    have r3: "rule3Points receipt = 25"
      by (simp add: rule3Points_def z const_0_25_eq rem_def shl_def)
    have "fst (calculatePoints receipt w) =
          wrap64 (rule1Points receipt + rule2Points receipt + 25 + rule4Points receipt
                  + rule5Points receipt + rule7Points receipt + rule8Points receipt)"
      by (simp only: calculatePoints_rules r3)
    moreover have "(''Rule 3: %d points for total (%s)\<newline>'', [D 25, S (Total receipt)])
          \<in> set (stdout (snd (calculatePoints receipt w)))"
      by (subst calculatePoints_stdout) (simp add: r3)
    ultimately show ?thesis
      using z by blast
  qed
  moreover have "isInf (fst (ParseFloat (Total receipt)))
      \<and> fst (calculatePoints receipt w) =
          wrap64 (rule1Points receipt + rule2Points receipt + 0 + rule4Points receipt
                  + rule5Points receipt + rule7Points receipt + rule8Points receipt)
      \<and> (''Rule 3: %d points for total (%s)\<newline>'', [D 0, S (Total receipt)])
          \<in> set (stdout (snd (calculatePoints receipt w)))"
    if h: "snd (ParseFloat (Total receipt)) = Some ErrRange"
  proof -
    have i: "isInf (fst (ParseFloat (Total receipt)))"
      using h by (rule ParseFloat_ErrRange)
    have r3: "rule3Points receipt = 0"
      by (simp add: rule3Points_def Mod_isInf [OF i])
    have "fst (calculatePoints receipt w) =
          wrap64 (rule1Points receipt + rule2Points receipt + 0 + rule4Points receipt
                  + rule5Points receipt + rule7Points receipt + rule8Points receipt)"
      by (simp only: calculatePoints_rules r3)
    moreover have "(''Rule 3: %d points for total (%s)\<newline>'', [D 0, S (Total receipt)])
          \<in> set (stdout (snd (calculatePoints receipt w)))"
      by (subst calculatePoints_stdout) (simp add: r3)
    ultimately show ?thesis
      using i by blast
  qed
  ultimately show ?thesis by blast
qed

theorem rule3_unparsable_total_witness:
  "snd (ParseFloat (Total (simpleReceipt\<lparr>Total := ''abc''\<rparr>))) = Some ErrSyntax
   \<and> fst (calculatePoints (simpleReceipt\<lparr>Total := ''abc''\<rparr>) initial) = 31
   \<and> (''Rule 3: %d points for total (%s)\<newline>'', [D 25, S ''abc''])
       \<in> set (stdout (snd (calculatePoints (simpleReceipt\<lparr>Total := ''abc''\<rparr>) initial)))
   \<and> snd (ParseFloat (Total (simpleReceipt\<lparr>Total := ''$12.50''\<rparr>))) = Some ErrSyntax
   \<and> fst (calculatePoints (simpleReceipt\<lparr>Total := ''$12.50''\<rparr>) initial) = 31
   \<and> (''Rule 3: %d points for total (%s)\<newline>'', [D 25, S ''$12.50''])
       \<in> set (stdout (snd (calculatePoints (simpleReceipt\<lparr>Total := ''$12.50''\<rparr>) initial)))
   \<and> snd (ParseFloat (Total (simpleReceipt\<lparr>Total := ''1e309''\<rparr>))) = Some ErrRange
   \<and> fst (calculatePoints (simpleReceipt\<lparr>Total := ''1e309''\<rparr>) initial) = 6
   \<and> (''Rule 3: %d points for total (%s)\<newline>'', [D 0, S ''1e309''])
       \<in> set (stdout (snd (calculatePoints (simpleReceipt\<lparr>Total := ''1e309''\<rparr>) initial)))"
proof -
  have h1: "snd (ParseFloat (Total (simpleReceipt\<lparr>Total := ''abc''\<rparr>))) = Some ErrSyntax"
    by code_simp
  have h2: "snd (ParseFloat (Total (simpleReceipt\<lparr>Total := ''$12.50''\<rparr>))) = Some ErrSyntax"
    by code_simp
  have h3: "snd (ParseFloat (Total (simpleReceipt\<lparr>Total := ''1e309''\<rparr>))) = Some ErrRange"
    by (simp add: ParseFloat_1e309)
  show ?thesis
    using h1 h2 h3
      rule3_unparsable_total [of "simpleReceipt\<lparr>Total := ''abc''\<rparr>" initial]
      rule3_unparsable_total [of "simpleReceipt\<lparr>Total := ''$12.50''\<rparr>" initial]
      rule3_unparsable_total [of "simpleReceipt\<lparr>Total := ''1e309''\<rparr>" initial]
    by (simp add: other_rules_Total rule2Points_simple simpleReceipt_rules wrap64_def)
qed

text \<open>
  C10, as the claim states it, fails: \<open>ParseFloat\<close> returns an error for the total
  \<open>1e309\<close>, the value that the program goes on with is not 0 but \<open>+Inf\<close>, and
  rule 3 contributes 0 points: for the receipt with that total \<open>calculatePoints\<close>
  returns the 6 points of rule 1 and no more, and writes 0 as the points of rule 3.
\<close>

theorem out_of_range_total_counterexample:
  "snd (ParseFloat (Total (simpleReceipt\<lparr>Total := ''1e309''\<rparr>))) = Some ErrRange
   \<and> fst (ParseFloat (Total (simpleReceipt\<lparr>Total := ''1e309''\<rparr>))) = PosInf
   \<and> fst (calculatePoints (simpleReceipt\<lparr>Total := ''1e309''\<rparr>) initial) = 6
   \<and> fst (calculatePoints (simpleReceipt\<lparr>Total := ''1e309''\<rparr>) initial)
       = rule1Points (simpleReceipt\<lparr>Total := ''1e309''\<rparr>)
   \<and> (''Rule 3: %d points for total (%s)\<newline>'', [D 0, S ''1e309''])
       \<in> set (stdout (snd (calculatePoints (simpleReceipt\<lparr>Total := ''1e309''\<rparr>) initial)))"
proof -
  have r3: "rule3Points (simpleReceipt\<lparr>Total := ''1e309''\<rparr>) = 0"
    by (simp add: rule3Points_def ParseFloat_1e309)
  have "fst (calculatePoints (simpleReceipt\<lparr>Total := ''1e309''\<rparr>) initial) = 6"
    by (simp add: calculatePoints_rules other_rules_Total rule2Points_simple simpleReceipt_rules
        r3 wrap64_def)
  moreover have "(''Rule 3: %d points for total (%s)\<newline>'', [D 0, S ''1e309''])
       \<in> set (stdout (snd (calculatePoints (simpleReceipt\<lparr>Total := ''1e309''\<rparr>) initial)))"
    by (subst calculatePoints_stdout) (simp add: r3)
  ultimately show ?thesis
    by (simp add: ParseFloat_1e309 other_rules_Total simpleReceipt_rules)
qed

end
